theory Spec2Isabelle
  imports Main
begin

section \<open>Data model of the sidecar injector (src/webhook/webhook.go)\<close>

text \<open>
  The Kubernetes object types \<open>corev1.Container\<close>, \<open>corev1.Volume\<close> and
  \<open>corev1.LocalObjectReference\<close> are declared outside this repository. The webhook
  never looks inside them, so they are the type parameters \<open>'c\<close>, \<open>'v\<close> and \<open>'s\<close>;
  the TLS certificate pair is \<open>'k\<close> and the file system read by a reload is \<open>'fs\<close>.
\<close>

definition webhookInjectKey :: string where
  "webhookInjectKey = ''sidecar-injector-mesher.io/inject''"

definition webhookStatusKey :: string where
  "webhookStatusKey = ''sidecar-injector-mesher.io/status''"

text \<open>\<open>Config\<close>: the sidecar configuration (lines 59-63).\<close>

record ('c, 'v, 's) Config =
  Containers :: "'c list"
  Volumes :: "'v list"
  ImagePullSecret :: "'s list"

text \<open>
  \<open>WebHookServer\<close> (lines 41-46): the fields that hold data. \<open>TLSConfig\<close> is
  \<open>Server.TLSConfig\<close>, the certificate pair the server was given. The watcher and
  the mutex carry no data of their own.
\<close>

record ('c, 'v, 's, 'k) WebHookServer =
  SidecarConfig :: "('c, 'v, 's) Config"
  TLSConfig :: 'k

text \<open>\<open>WebHookParameters\<close> (lines 49-56); the interval is in nanoseconds.\<close>

record WebHookParameters =
  Port :: int
  CertFile :: string
  KeyFile :: string
  SidecarConfigFile :: string
  HealthCheckInterval :: int
  HealthCheckFile :: string

text \<open>
  The field \<open>Value interface{}\<close> of a patch operation holds, depending on the branch
  that built it, one object, a slice of objects, a \<open>map[string]string\<close> literal or a
  string. A Go map literal with one key is the one-element association list.
\<close>

datatype ('c, 'v, 's) jvalue =
    VContainer 'c
  | VContainers "'c list"
  | VVolume 'v
  | VVolumes "'v list"
  | VSecret 's
  | VSecrets "'s list"
  | VMap "(string \<times> string) list"
  | VString string

text \<open>\<open>operation\<close> (lines 65-69).\<close>

record ('c, 'v, 's) operation =
  Operation :: string
  Path :: string
  Value :: "('c, 'v, 's) jvalue"

text \<open>
  The part of \<open>metav1.ObjectMeta\<close> and of \<open>corev1.Pod\<close> that the webhook reads.
  \<open>Annotations\<close> is a Go map that may be \<open>nil\<close>: \<open>None\<close> is the nil map,
  \<open>Some m\<close> an allocated one (possibly empty).
\<close>

record ObjectMeta =
  Namespace :: string
  Name :: string
  Annotations :: "(string \<rightharpoonup> string) option"

record ('c, 'v, 's) PodSpec =
  SpecContainers :: "'c list"
  SpecVolumes :: "'v list"
  SpecImagePullSecrets :: "'s list"

record ('c, 'v, 's) Pod =
  Meta :: ObjectMeta
  Spec :: "('c, 'v, 's) PodSpec"

text \<open>
  The admission types of \<open>k8s.io/api/admission/v1beta1\<close>, with the fields the
  webhook reads outside its log lines or writes. \<open>Raw\<close> is \<open>Request.Object.Raw\<close>.
  A nil pointer is \<open>None\<close>, and so is a nil byte slice in \<open>Patch\<close>.
\<close>

record Status =
  Message :: string

record AdmissionRequest =
  UID :: string
  Raw :: string

record AdmissionResponse =
  RespUID :: string
  Allowed :: bool
  Result :: "Status option"
  Patch :: "string option"
  PatchType :: "string option"

record AdmissionReview =
  Request :: "AdmissionRequest option"
  Response :: "AdmissionResponse option"

text \<open>
  The functions of other packages that the webhook calls, as parameters:
  \<^item> \<open>ToLower\<close>: \<open>strings.ToLower\<close> (lines 158 and 161);
  \<^item> \<open>Unmarshal\<close>: \<open>json.Unmarshal\<close> of the raw object into a \<open>corev1.Pod\<close>
    (line 275), \<open>Inl\<close> the error text;
  \<^item> \<open>Marshal\<close>: \<open>json.Marshal\<close> of the operation list (line 268);
  \<^item> \<open>DefaultContainer\<close>, \<open>DefaultVolume\<close>, \<open>DefaultSecret\<close>: what
    \<open>defaulter.Default\<close> (line 125) does to one element of each slice of the pod
    it is given; the registered defaulting functions write into the elements
    through pointers, entry by entry;
  \<^item> \<open>Decode\<close>: \<open>deserializer.Decode(body, nil, &aRequest)\<close> (line 341): the
    error if any, and the contents of \<open>aRequest\<close> afterwards;
  \<^item> \<open>MarshalReview\<close>: \<open>json.Marshal\<close> of the response envelope (line 360).
\<close>

record ('c, 'v, 's) library =
  ToLower :: "string \<Rightarrow> string"
  Unmarshal :: "string \<Rightarrow> string + ('c, 'v, 's) Pod"
  Marshal :: "('c, 'v, 's) operation list \<Rightarrow> string + string"
  DefaultContainer :: "'c \<Rightarrow> 'c"
  DefaultVolume :: "'v \<Rightarrow> 'v"
  DefaultSecret :: "'s \<Rightarrow> 's"
  Decode :: "string \<Rightarrow> string option \<times> AdmissionReview"
  MarshalReview :: "AdmissionReview \<Rightarrow> string + string"

text \<open>A run-time panic of the Go program.\<close>

datatype error = NilPointerDereference

section \<open>The mutation decision\<close>

text \<open>Indexing a Go map of strings: a missing key reads as the empty string.\<close>

definition index :: "(string \<rightharpoonup> string) \<Rightarrow> string \<Rightarrow> string" where
  "index m k = (case m k of None \<Rightarrow> [] | Some v \<Rightarrow> v)"

text \<open>
  The value read for an annotation of the object: the empty string when the map is
  nil or has no such key.
\<close>

definition annotationOf :: "ObjectMeta \<Rightarrow> string \<Rightarrow> string" where
  "annotationOf metaData k =
     (case Annotations metaData of
        None \<Rightarrow> []
      | Some m \<Rightarrow> (case m k of None \<Rightarrow> [] | Some v \<Rightarrow> v))"

text \<open>\<open>requiredMutation\<close> (lines 148-171).\<close>

definition requiredMutation :: "('c, 'v, 's) library \<Rightarrow> ObjectMeta \<Rightarrow> bool" where
  "requiredMutation lib metaData =
     (let annotations = (case Annotations metaData of None \<Rightarrow> Map.empty | Some m \<Rightarrow> m);
          status = index annotations webhookStatusKey
      in if ToLower lib status = ''injected'' then False
         else (let sw = ToLower lib (index annotations webhookInjectKey)
               in if sw = ''y'' \<or> sw = ''yes'' then True else False))"

section \<open>Building the patch\<close>

text \<open>
  The loop of \<open>insertContainer\<close> (lines 176-190): \<open>f\<close> is the flag of line 174,
  cleared by the first iteration.
\<close>

fun insertContainer_loop ::
  "bool \<Rightarrow> 'c list \<Rightarrow> string \<Rightarrow> ('c, 'v, 's) operation list" where
  "insertContainer_loop f [] path = []"
| "insertContainer_loop f (a # as) path =
     (if f
      then \<lparr>Operation = ''add'', Path = path, Value = VContainers [a]\<rparr>
             # insertContainer_loop False as path
      else \<lparr>Operation = ''add'', Path = path @ ''/-'', Value = VContainer a\<rparr>
             # insertContainer_loop f as path)"

definition insertContainer ::
  "'c list \<Rightarrow> 'c list \<Rightarrow> string \<Rightarrow> ('c, 'v, 's) operation list" where
  "insertContainer dest add path = insertContainer_loop (length dest = 0) add path"

text \<open>\<open>insertVolume\<close> (lines 194-213).\<close>

fun insertVolume_loop ::
  "bool \<Rightarrow> 'v list \<Rightarrow> string \<Rightarrow> ('c, 'v, 's) operation list" where
  "insertVolume_loop f [] path = []"
| "insertVolume_loop f (a # as) path =
     (if f
      then \<lparr>Operation = ''add'', Path = path, Value = VVolumes [a]\<rparr>
             # insertVolume_loop False as path
      else \<lparr>Operation = ''add'', Path = path @ ''/-'', Value = VVolume a\<rparr>
             # insertVolume_loop f as path)"

definition insertVolume ::
  "'v list \<Rightarrow> 'v list \<Rightarrow> string \<Rightarrow> ('c, 'v, 's) operation list" where
  "insertVolume dest add path = insertVolume_loop (length dest = 0) add path"

text \<open>\<open>insertImagePullSecrets\<close> (lines 215-234).\<close>

fun insertImagePullSecrets_loop ::
  "bool \<Rightarrow> 's list \<Rightarrow> string \<Rightarrow> ('c, 'v, 's) operation list" where
  "insertImagePullSecrets_loop f [] path = []"
| "insertImagePullSecrets_loop f (a # as) path =
     (if f
      then \<lparr>Operation = ''add'', Path = path, Value = VSecrets [a]\<rparr>
             # insertImagePullSecrets_loop False as path
      else \<lparr>Operation = ''add'', Path = path @ ''/-'', Value = VSecret a\<rparr>
             # insertImagePullSecrets_loop f as path)"

definition insertImagePullSecrets ::
  "'s list \<Rightarrow> 's list \<Rightarrow> string \<Rightarrow> ('c, 'v, 's) operation list" where
  "insertImagePullSecrets dest add path =
     insertImagePullSecrets_loop (length dest = 0) add path"

text \<open>
  \<open>annotationUpdate\<close> (lines 236-256). \<open>add\<close> is a Go map; the list gives its
  entries in the order the \<open>range\<close> loop visits them. The test of line 238 reads
  \<open>dest[key]\<close> only when \<open>dest\<close> is not nil, and the first branch assigns a fresh
  empty map to \<open>dest\<close> for the iterations that follow.
\<close>

fun annotationUpdate ::
  "(string \<rightharpoonup> string) option \<Rightarrow> (string \<times> string) list \<Rightarrow> ('c, 'v, 's) operation list" where
  "annotationUpdate dest [] = []"
| "annotationUpdate dest ((key, val) # rest) =
     (if (case dest of None \<Rightarrow> True | Some m \<Rightarrow> index m key = [])
      then \<lparr>Operation = ''add'', Path = ''/metadata/annotations'',
             Value = VMap [(key, val)]\<rparr>
             # annotationUpdate (Some Map.empty) rest
      else \<lparr>Operation = ''replace'', Path = ''/metadata/annotations/'' @ key,
             Value = VString val\<rparr>
             # annotationUpdate dest rest)"

text \<open>
  The operation list of \<open>createpatch\<close> (lines 260-266), and \<open>createpatch\<close> itself,
  which serialises it (line 268).
\<close>

definition createpatch_ops ::
  "('c, 'v, 's) Pod \<Rightarrow> ('c, 'v, 's) Config \<Rightarrow> (string \<times> string) list
     \<Rightarrow> ('c, 'v, 's) operation list" where
  "createpatch_ops pod sidecarConfig annotations =
     insertContainer (SpecContainers (Spec pod)) (Containers sidecarConfig) ''/spec/containers''
     @ insertVolume (SpecVolumes (Spec pod)) (Volumes sidecarConfig) ''/spec/volumes''
     @ insertImagePullSecrets (SpecImagePullSecrets (Spec pod)) (ImagePullSecret sidecarConfig)
         ''/spec/imagePullSecrets''
     @ annotationUpdate (Annotations (Meta pod)) annotations"

definition createpatch ::
  "('c, 'v, 's) library \<Rightarrow> ('c, 'v, 's) Pod \<Rightarrow> ('c, 'v, 's) Config
     \<Rightarrow> (string \<times> string) list \<Rightarrow> string + string" where
  "createpatch lib pod sidecarConfig annotations =
     Marshal lib (createpatch_ops pod sidecarConfig annotations)"

section \<open>Handling one admission review\<close>

text \<open>
  \<open>applyDefaultsWorkaround\<close> (lines 124-132) builds a pod whose three slices are the
  slices it was given and hands it to the defaulter. The pod is dropped, but the
  slices share their backing arrays with the caller's, so the caller sees every
  element as the defaulter left it. The function returns nothing in Go; here it
  returns the three arrays as they are afterwards.
\<close>

definition applyDefaultsWorkaround ::
  "('c, 'v, 's) library \<Rightarrow> 'c list \<Rightarrow> 'v list \<Rightarrow> 's list \<Rightarrow> 'c list \<times> 'v list \<times> 's list" where
  "applyDefaultsWorkaround lib containers volumes secrets =
     (map (DefaultContainer lib) containers,
      map (DefaultVolume lib) volumes,
      map (DefaultSecret lib) secrets)"

text \<open>The configuration as \<open>applyDefaultsWorkaround\<close> leaves it.\<close>

definition defaulted :: "('c, 'v, 's) library \<Rightarrow> ('c, 'v, 's) Config \<Rightarrow> ('c, 'v, 's) Config" where
  "defaulted lib cfg =
     \<lparr>Containers = map (DefaultContainer lib) (Containers cfg),
      Volumes = map (DefaultVolume lib) (Volumes cfg),
      ImagePullSecret = map (DefaultSecret lib) (ImagePullSecret cfg)\<rparr>"

text \<open>
  \<open>mutation\<close> (lines 272-316). \<open>ar.Request\<close> is a pointer and line 275 reads
  through it unchecked. The call of line 296 passes the slices of
  \<open>wh.SidecarConfig\<close>, so the server state comes back with them updated.
\<close>

definition mutation ::
  "('c, 'v, 's) library \<Rightarrow> ('c, 'v, 's, 'k) WebHookServer \<Rightarrow> AdmissionReview
     \<Rightarrow> error + (AdmissionResponse \<times> ('c, 'v, 's, 'k) WebHookServer)" where
  "mutation lib wh ar =
     (case Request ar of
        None \<Rightarrow> Inl NilPointerDereference
      | Some req \<Rightarrow>
          (case Unmarshal lib (Raw req) of
             Inl err \<Rightarrow>
               Inr (\<lparr>RespUID = [], Allowed = False, Result = Some \<lparr>Message = err\<rparr>,
                     Patch = None, PatchType = None\<rparr>, wh)
           | Inr pod \<Rightarrow>
               if \<not> requiredMutation lib (Meta pod)
               then Inr (\<lparr>RespUID = [], Allowed = True, Result = None,
                          Patch = None, PatchType = None\<rparr>, wh)
               else
                 (case applyDefaultsWorkaround lib (Containers (SidecarConfig wh))
                         (Volumes (SidecarConfig wh)) (ImagePullSecret (SidecarConfig wh)) of
                    (cs, vs, ss) \<Rightarrow>
                      (let wh' = wh\<lparr>SidecarConfig :=
                                      \<lparr>Containers = cs, Volumes = vs, ImagePullSecret = ss\<rparr>\<rparr>;
                           annotations = [(webhookStatusKey, ''injected'')]
                       in case createpatch lib pod (SidecarConfig wh') annotations of
                            Inl err \<Rightarrow>
                              Inr (\<lparr>RespUID = [], Allowed = False,
                                    Result = Some \<lparr>Message = err\<rparr>,
                                    Patch = None, PatchType = None\<rparr>, wh')
                          | Inr patch \<Rightarrow>
                              Inr (\<lparr>RespUID = [], Allowed = True, Result = None,
                                    Patch = Some patch, PatchType = Some ''JSONPatch''\<rparr>,
                                   wh')))))"

section \<open>The HTTP handler\<close>

text \<open>
  What \<open>webhookMutation\<close> reads of the HTTP request: the body (\<open>None\<close> when
  \<open>r.Body\<close> is nil or reading it fails) and the \<open>Content-Type\<close> header.
\<close>

record HttpRequest =
  Body :: "string option"
  ContentType :: string

text \<open>
  What the handler hands to the response writer: nothing (the early returns of
  lines 329 and 336), or the envelope it built and the bytes it passed to
  \<open>w.Write\<close>.
\<close>

datatype reply = NoReply | Reply AdmissionReview string

text \<open>
  \<open>webhookMutation\<close> (lines 319-369). \<open>mutation\<close> returns a non-nil pointer on
  every path, so the test of line 353 holds whenever line 352 is reached. When
  the envelope fails to serialise, the error is logged and the nil slice is written.
\<close>

definition webhookMutation ::
  "('c, 'v, 's) library \<Rightarrow> ('c, 'v, 's, 'k) WebHookServer \<Rightarrow> HttpRequest
     \<Rightarrow> error + (reply \<times> ('c, 'v, 's, 'k) WebHookServer)" where
  "webhookMutation lib wh r =
     (let body = (case Body r of None \<Rightarrow> [] | Some data \<Rightarrow> data)
      in if length body = 0 then Inr (NoReply, wh)
         else if ContentType r \<noteq> ''application/json'' then Inr (NoReply, wh)
         else
           (case Decode lib body of
              (derr, aRequest) \<Rightarrow>
                (case (case derr of
                         Some err \<Rightarrow>
                           Inr (\<lparr>RespUID = [], Allowed = False,
                                 Result = Some \<lparr>Message = err\<rparr>,
                                 Patch = None, PatchType = None\<rparr>, wh)
                       | None \<Rightarrow> mutation lib wh aRequest) of
                   Inl panic \<Rightarrow> Inl panic
                 | Inr (aResponse, wh') \<Rightarrow>
                     (let response = (case Request aRequest of
                                        None \<Rightarrow> aResponse
                                      | Some req \<Rightarrow> aResponse\<lparr>RespUID := UID req\<rparr>);
                          admissionReview = \<lparr>Request = None, Response = Some response\<rparr>;
                          resp = (case MarshalReview lib admissionReview of
                                    Inl err \<Rightarrow> []
                                  | Inr bytes \<Rightarrow> bytes)
                      in Inr (Reply admissionReview resp, wh')))))"

section \<open>The reload loop\<close>

text \<open>
  The functions of other packages that a reload calls: \<open>ioutil.ReadFile\<close> and
  \<open>tls.LoadX509KeyPair\<close> on the file system as it is at that moment, and
  \<open>yaml.Unmarshal\<close> into a \<open>Config\<close>.
\<close>

record ('c, 'v, 's, 'k, 'fs) loaders =
  ReadFile :: "'fs \<Rightarrow> string \<Rightarrow> string + string"
  YamlUnmarshal :: "string \<Rightarrow> string + ('c, 'v, 's) Config"
  LoadX509KeyPair :: "'fs \<Rightarrow> string \<Rightarrow> string \<Rightarrow> string + 'k"

text \<open>\<open>loadConfig\<close> (lines 134-146).\<close>

definition loadConfig ::
  "('c, 'v, 's, 'k, 'fs) loaders \<Rightarrow> 'fs \<Rightarrow> string \<Rightarrow> string + ('c, 'v, 's) Config" where
  "loadConfig io fs cfgFile =
     (case ReadFile io fs cfgFile of
        Inl err \<Rightarrow> Inl err
      | Inr data \<Rightarrow> YamlUnmarshal io data)"

text \<open>
  The branch \<open>case <-timerChan\<close> of \<open>Run\<close> (lines 394-409). A \<open>break\<close> inside
  \<open>select\<close> leaves the \<open>select\<close>, not the loop.
\<close>

definition reload ::
  "('c, 'v, 's, 'k, 'fs) loaders \<Rightarrow> WebHookParameters \<Rightarrow> 'fs
     \<Rightarrow> ('c, 'v, 's, 'k) WebHookServer \<Rightarrow> ('c, 'v, 's, 'k) WebHookServer" where
  "reload io p fs wh =
     (case loadConfig io fs (SidecarConfigFile p) of
        Inl err \<Rightarrow> wh
      | Inr sidecarConfig \<Rightarrow>
          (case LoadX509KeyPair io fs (CertFile p) (KeyFile p) of
             Inl err \<Rightarrow> wh
           | Inr pair \<Rightarrow> wh\<lparr>SidecarConfig := sidecarConfig, TLSConfig := pair\<rparr>))"

text \<open>
  What \<open>select\<close> can receive (lines 393-424): the debounce timer firing, with the
  file system the reload then reads; a watcher event, with the value of
  \<open>event.IsModify() || event.IsCreate()\<close>; a watcher error; a health tick, with the
  error of \<open>ioutil.WriteFile\<close> if it failed; the stop signal.
\<close>

datatype 'fs event =
    TimerFired 'fs
  | WatchEvent bool
  | WatchError string
  | HealthTick "string option"
  | Stop

text \<open>
  The state of \<open>Run\<close>: the server, whether \<open>timerChan\<close> holds a timer that has
  not fired yet (it is nil at first, and a fired \<open>time.After\<close> channel delivers
  nothing more), and whether \<open>Run\<close> has returned, closing server and watcher.
\<close>

record ('c, 'v, 's, 'k) RunState =
  Server :: "('c, 'v, 's, 'k) WebHookServer"
  TimerArmed :: bool
  Returned :: bool

text \<open>
  One turn of the \<open>for\<close> loop of \<open>Run\<close> (lines 392-425). A nil channel never
  delivers, so a timer event without an armed timer and a health tick without a
  health channel (line 375) find the state as it is.
\<close>

definition Run_select ::
  "('c, 'v, 's, 'k, 'fs) loaders \<Rightarrow> WebHookParameters \<Rightarrow> ('c, 'v, 's, 'k) RunState
     \<Rightarrow> 'fs event \<Rightarrow> ('c, 'v, 's, 'k) RunState" where
  "Run_select io p st ev =
     (case ev of
        TimerFired fs \<Rightarrow>
          if TimerArmed st
          then st\<lparr>Server := reload io p fs (Server st), TimerArmed := False\<rparr>
          else st
      | WatchEvent modifyOrCreate \<Rightarrow>
          if modifyOrCreate then st\<lparr>TimerArmed := True\<rparr> else st
      | WatchError err \<Rightarrow> st
      | HealthTick werr \<Rightarrow> st
      | Stop \<Rightarrow> st\<lparr>Returned := True\<rparr>)"

text \<open>\<open>Run\<close> on the events that arrive, in order; it stops reading at \<open>Stop\<close>.\<close>

fun Run_loop ::
  "('c, 'v, 's, 'k, 'fs) loaders \<Rightarrow> WebHookParameters \<Rightarrow> ('c, 'v, 's, 'k) RunState
     \<Rightarrow> 'fs event list \<Rightarrow> ('c, 'v, 's, 'k) RunState" where
  "Run_loop io p st [] = st"
| "Run_loop io p st (ev # evs) =
     (if Returned (Run_select io p st ev) then Run_select io p st ev
      else Run_loop io p (Run_select io p st ev) evs)"

section \<open>Use of the lock\<close>

text \<open>
  The accesses of one function to the fields shared between the goroutine of \<open>Run\<close>
  and the goroutines of the HTTP server, and its calls on \<open>wh.Lock\<close>, in program
  order.
\<close>

datatype access =
    LockLock
  | LockUnlock
  | ReadSidecarConfig
  | WriteSidecarConfig
  | WriteTLSConfig

text \<open>
  The reload branch: the two loads work on local variables; lines 406-409 lock,
  assign both fields and unlock.
\<close>

definition reload_accesses ::
  "('c, 'v, 's, 'k, 'fs) loaders \<Rightarrow> WebHookParameters \<Rightarrow> 'fs \<Rightarrow> access list" where
  "reload_accesses io p fs =
     (case loadConfig io fs (SidecarConfigFile p) of
        Inl err \<Rightarrow> []
      | Inr sidecarConfig \<Rightarrow>
          (case LoadX509KeyPair io fs (CertFile p) (KeyFile p) of
             Inl err \<Rightarrow> []
           | Inr pair \<Rightarrow> [LockLock, WriteSidecarConfig, WriteTLSConfig, LockUnlock]))"

text \<open>
  \<open>mutation\<close>: line 296 reads \<open>wh.SidecarConfig\<close> three times for the arguments
  of \<open>applyDefaultsWorkaround\<close>, whose defaulter writes into the entries, and
  line 298 reads it once more. No line of \<open>mutation\<close> or \<open>webhookMutation\<close>
  calls \<open>wh.Lock\<close>.
\<close>

definition mutation_accesses :: "('c, 'v, 's) library \<Rightarrow> AdmissionReview \<Rightarrow> access list" where
  "mutation_accesses lib ar =
     (case Request ar of
        None \<Rightarrow> []
      | Some req \<Rightarrow>
          (case Unmarshal lib (Raw req) of
             Inl err \<Rightarrow> []
           | Inr pod \<Rightarrow>
               if \<not> requiredMutation lib (Meta pod) then []
               else [ReadSidecarConfig, ReadSidecarConfig, ReadSidecarConfig,
                     WriteSidecarConfig, ReadSidecarConfig]))"

text \<open>
  Every access to a shared field happens while the lock is held; the first
  argument says whether it is held at the start.
\<close>

fun guarded :: "bool \<Rightarrow> access list \<Rightarrow> bool" where
  "guarded held [] = True"
| "guarded held (LockLock # as) = guarded True as"
| "guarded held (LockUnlock # as) = guarded False as"
| "guarded held (a # as) = (held \<and> guarded held as)"

section \<open>Concrete inputs\<close>

text \<open>
  Instances of the parameters, for evaluating the functions above. A container is
  its image and its termination message path, a volume and a pull secret are
  their names, a certificate pair is its PEM text, and the file system maps a
  path to the content of the file.
\<close>

text \<open>\<open>strings.ToLower\<close> on ASCII bytes: \<open>A\<close> to \<open>Z\<close> (65 to 90) move up by 32.\<close>

definition toLowerByte :: "char \<Rightarrow> char" where
  "toLowerByte c =
     (let n = (of_char c :: nat) in if 65 \<le> n \<and> n \<le> 90 then char_of (n + 32) else c)"

definition toLowerASCII :: "string \<Rightarrow> string" where
  "toLowerASCII s = map toLowerByte s"

text \<open>The defaulter fills an empty termination message path.\<close>

definition defaultPath :: "string \<times> string \<Rightarrow> string \<times> string" where
  "defaultPath c = (fst c, if snd c = [] then ''/dev/termination-log'' else snd c)"

definition pod_yes :: "(string \<times> string, string, string) Pod" where
  "pod_yes =
     \<lparr>Meta = \<lparr>Namespace = ''default'', Name = ''web'',
              Annotations = Some [webhookInjectKey \<mapsto> ''Yes'']\<rparr>,
      Spec = \<lparr>SpecContainers = [(''nginx'', ''/dev/termination-log'')],
              SpecVolumes = [], SpecImagePullSecrets = []\<rparr>\<rparr>"

definition pod_injected :: "(string \<times> string, string, string) Pod" where
  "pod_injected =
     \<lparr>Meta = \<lparr>Namespace = ''default'', Name = ''web'',
              Annotations = Some [webhookInjectKey \<mapsto> ''y'', webhookStatusKey \<mapsto> ''Injected'']\<rparr>,
      Spec = \<lparr>SpecContainers = [(''nginx'', ''/dev/termination-log'')],
              SpecVolumes = [], SpecImagePullSecrets = []\<rparr>\<rparr>"

definition pod_yes_labelled :: "(string \<times> string, string, string) Pod" where
  "pod_yes_labelled =
     \<lparr>Meta = \<lparr>Namespace = ''default'', Name = ''web'',
              Annotations = Some [webhookInjectKey \<mapsto> ''Yes'', ''team'' \<mapsto> ''payments'']\<rparr>,
      Spec = \<lparr>SpecContainers = [(''nginx'', ''/dev/termination-log'')],
              SpecVolumes = [], SpecImagePullSecrets = []\<rparr>\<rparr>"

definition pod_plain :: "(string \<times> string, string, string) Pod" where
  "pod_plain =
     \<lparr>Meta = \<lparr>Namespace = ''default'', Name = ''db'', Annotations = None\<rparr>,
      Spec = \<lparr>SpecContainers = [(''postgres'', ''/dev/termination-log'')],
              SpecVolumes = [], SpecImagePullSecrets = []\<rparr>\<rparr>"

definition pod_bare :: "(string \<times> string, string, string) Pod" where
  "pod_bare =
     \<lparr>Meta = \<lparr>Namespace = ''default'', Name = ''job'',
              Annotations = Some [webhookInjectKey \<mapsto> ''YES'']\<rparr>,
      Spec = \<lparr>SpecContainers = [], SpecVolumes = [], SpecImagePullSecrets = []\<rparr>\<rparr>"

definition pod_pending :: "(string \<times> string, string, string) Pod" where
  "pod_pending =
     \<lparr>Meta = \<lparr>Namespace = ''default'', Name = ''job'',
              Annotations = Some [webhookInjectKey \<mapsto> ''y'', webhookStatusKey \<mapsto> ''pending'']\<rparr>,
      Spec = \<lparr>SpecContainers = [], SpecVolumes = [], SpecImagePullSecrets = []\<rparr>\<rparr>"

text \<open>Object metadata with the two annotations set as given, \<open>None\<close> for unset.\<close>

definition meta_with :: "string option \<Rightarrow> string option \<Rightarrow> ObjectMeta" where
  "meta_with inject status =
     \<lparr>Namespace = ''default'', Name = ''pod'',
      Annotations = Some ((Map.empty(webhookInjectKey := inject))(webhookStatusKey := status))\<rparr>"

definition two_sidecars :: "(string \<times> string, string, string) Config" where
  "two_sidecars =
     \<lparr>Containers = [(''mesher'', ''/dev/termination-log''), (''proxy'', ''/dev/termination-log'')],
      Volumes = [], ImagePullSecret = []\<rparr>"

definition review_without_request :: AdmissionReview where
  "review_without_request = \<lparr>Request = None, Response = None\<rparr>"

definition review_yes :: AdmissionReview where
  "review_yes = \<lparr>Request = Some \<lparr>UID = ''uid-1'', Raw = ''pod-yes''\<rparr>, Response = None\<rparr>"

definition review_yes_labelled :: AdmissionReview where
  "review_yes_labelled =
     \<lparr>Request = Some \<lparr>UID = ''uid-2'', Raw = ''pod-yes-labelled''\<rparr>, Response = None\<rparr>"

definition review_injected :: AdmissionReview where
  "review_injected =
     \<lparr>Request = Some \<lparr>UID = ''uid-3'', Raw = ''pod-injected''\<rparr>, Response = None\<rparr>"

definition review_garbage :: AdmissionReview where
  "review_garbage = \<lparr>Request = Some \<lparr>UID = ''uid-4'', Raw = ''{''\<rparr>, Response = None\<rparr>"

definition example_lib :: "(string \<times> string, string, string) library" where
  "example_lib =
     \<lparr>ToLower = toLowerASCII,
      Unmarshal = (\<lambda>raw. if raw = ''pod-yes'' then Inr pod_yes
                         else if raw = ''pod-yes-labelled'' then Inr pod_yes_labelled
                         else if raw = ''pod-injected'' then Inr pod_injected
                         else Inl ''unexpected end of JSON input''),
      Marshal = (\<lambda>ops. Inr (concat (map (\<lambda>p. Operation p @ '' '' @ Path p @ '';'') ops))),
      DefaultContainer = defaultPath,
      DefaultVolume = (\<lambda>v. v),
      DefaultSecret = (\<lambda>s. s),
      Decode = (\<lambda>body.
         if body = ''review-without-request'' then (None, review_without_request)
         else if body = ''review-yes'' then (None, review_yes)
         else if body = ''review-yes-labelled'' then (None, review_yes_labelled)
         else if body = ''review-injected'' then (None, review_injected)
         else if body = ''review-garbage'' then (None, review_garbage)
         else (Some ''could not get version or kind'', \<lparr>Request = None, Response = None\<rparr>)),
      MarshalReview = (\<lambda>rv. Inr ''review'')\<rparr>"

definition example_server :: "(string \<times> string, string, string, string) WebHookServer" where
  "example_server =
     \<lparr>SidecarConfig = \<lparr>Containers = [(''mesher'', [])], Volumes = [''certs''],
                        ImagePullSecret = []\<rparr>,
      TLSConfig = ''pair-1''\<rparr>"

definition example_params :: WebHookParameters where
  "example_params =
     \<lparr>Port = 443, CertFile = ''/etc/webhook/cert.pem'', KeyFile = ''/etc/webhook/key.pem'',
      SidecarConfigFile = ''/etc/webhook/config.yaml'',
      HealthCheckInterval = 0, HealthCheckFile = []\<rparr>"

definition example_io ::
  "(string \<times> string, string, string, string, string \<rightharpoonup> string) loaders" where
  "example_io =
     \<lparr>ReadFile = (\<lambda>fs path. case fs path of
                                  None \<Rightarrow> Inl ''no such file or directory''
                                | Some data \<Rightarrow> Inr data),
      YamlUnmarshal = (\<lambda>data.
         if data = ''containers: [proxy]''
         then Inr \<lparr>Containers = [(''proxy'', [])], Volumes = [], ImagePullSecret = []\<rparr>
         else Inl ''yaml: did not find expected key''),
      LoadX509KeyPair = (\<lambda>fs certFile keyFile.
         case fs certFile of
           None \<Rightarrow> Inl ''no such file or directory''
         | Some cert \<Rightarrow>
             (case fs keyFile of
                None \<Rightarrow> Inl ''no such file or directory''
              | Some key \<Rightarrow>
                  if key = cert then Inr cert
                  else Inl ''tls: private key does not match public key''))\<rparr>"

text \<open>
  Three states of the watched files: a configuration that is not YAML, a key that
  does not belong to the certificate, and files that load.
\<close>

definition fs_bad_config :: "string \<rightharpoonup> string" where
  "fs_bad_config =
     [''/etc/webhook/config.yaml'' \<mapsto> ''containers: ['',
      ''/etc/webhook/cert.pem'' \<mapsto> ''pair-2'',
      ''/etc/webhook/key.pem'' \<mapsto> ''pair-2'']"

definition fs_bad_key :: "string \<rightharpoonup> string" where
  "fs_bad_key =
     [''/etc/webhook/config.yaml'' \<mapsto> ''containers: [proxy]'',
      ''/etc/webhook/cert.pem'' \<mapsto> ''pair-2'',
      ''/etc/webhook/key.pem'' \<mapsto> ''pair-3'']"

definition fs_good :: "string \<rightharpoonup> string" where
  "fs_good =
     [''/etc/webhook/config.yaml'' \<mapsto> ''containers: [proxy]'',
      ''/etc/webhook/cert.pem'' \<mapsto> ''pair-2'',
      ''/etc/webhook/key.pem'' \<mapsto> ''pair-2'']"

section \<open>Properties of the functions\<close>

subsection \<open>The decision\<close>

text \<open>
  \<open>requiredMutation\<close> as one condition on the two annotations it reads, and the
  early return of \<open>mutation\<close> that depends on it.
\<close>

lemma requiredMutation_iff:
  "requiredMutation lib metaData =
     ((ToLower lib (annotationOf metaData webhookInjectKey) = ''y''
        \<or> ToLower lib (annotationOf metaData webhookInjectKey) = ''yes'')
      \<and> ToLower lib (annotationOf metaData webhookStatusKey) \<noteq> ''injected'')"
  by (simp add: requiredMutation_def annotationOf_def index_def Let_def split: option.splits)

lemma mutation_not_required:
  assumes "Request ar = Some req" and "Unmarshal lib (Raw req) = Inr pod"
    and "\<not> requiredMutation lib (Meta pod)"
  shows "mutation lib wh ar =
           Inr (\<lparr>RespUID = [], Allowed = True, Result = None, Patch = None, PatchType = None\<rparr>, wh)"
  using assms by (simp add: mutation_def)

lemma requiredMutation_agree:
  assumes "annotationOf metaData' webhookInjectKey = annotationOf metaData webhookInjectKey"
    and "annotationOf metaData' webhookStatusKey = annotationOf metaData webhookStatusKey"
  shows "requiredMutation lib metaData' = requiredMutation lib metaData"
  using assms by (simp only: requiredMutation_iff)

text \<open>The same condition with the two keys written out.\<close>

lemma requiredMutation_literal:
  "requiredMutation lib metaData \<longleftrightarrow>
     (ToLower lib (annotationOf metaData ''sidecar-injector-mesher.io/inject'') = ''y''
        \<or> ToLower lib (annotationOf metaData ''sidecar-injector-mesher.io/inject'') = ''yes'')
     \<and> ToLower lib (annotationOf metaData ''sidecar-injector-mesher.io/status'') \<noteq> ''injected''"
  by (simp add: requiredMutation_iff webhookInjectKey_def webhookStatusKey_def)

subsection \<open>The patch\<close>

text \<open>
  After the first iteration the flag is clear, and each loop appends one operation
  per element.
\<close>

lemma insertContainer_loop_False:
  "insertContainer_loop False add path =
     map (\<lambda>c. \<lparr>Operation = ''add'', Path = path @ ''/-'', Value = VContainer c\<rparr>) add"
  by (induction add) simp_all

lemma insertVolume_loop_False:
  "insertVolume_loop False add path =
     map (\<lambda>c. \<lparr>Operation = ''add'', Path = path @ ''/-'', Value = VVolume c\<rparr>) add"
  by (induction add) simp_all

lemma insertImagePullSecrets_loop_False:
  "insertImagePullSecrets_loop False add path =
     map (\<lambda>c. \<lparr>Operation = ''add'', Path = path @ ''/-'', Value = VSecret c\<rparr>) add"
  by (induction add) simp_all

lemma insertContainer_eq:
  "insertContainer dest add path =
     (if dest = []
      then (case add of
              [] \<Rightarrow> []
            | a # as \<Rightarrow>
                \<lparr>Operation = ''add'', Path = path, Value = VContainers [a]\<rparr>
                # map (\<lambda>c. \<lparr>Operation = ''add'', Path = path @ ''/-'', Value = VContainer c\<rparr>) as)
      else map (\<lambda>c. \<lparr>Operation = ''add'', Path = path @ ''/-'', Value = VContainer c\<rparr>) add)"
  by (simp add: insertContainer_def insertContainer_loop_False split: list.splits)

lemma insertVolume_eq:
  "insertVolume dest add path =
     (if dest = []
      then (case add of
              [] \<Rightarrow> []
            | a # as \<Rightarrow>
                \<lparr>Operation = ''add'', Path = path, Value = VVolumes [a]\<rparr>
                # map (\<lambda>c. \<lparr>Operation = ''add'', Path = path @ ''/-'', Value = VVolume c\<rparr>) as)
      else map (\<lambda>c. \<lparr>Operation = ''add'', Path = path @ ''/-'', Value = VVolume c\<rparr>) add)"
  by (simp add: insertVolume_def insertVolume_loop_False split: list.splits)

lemma insertImagePullSecrets_eq:
  "insertImagePullSecrets dest add path =
     (if dest = []
      then (case add of
              [] \<Rightarrow> []
            | a # as \<Rightarrow>
                \<lparr>Operation = ''add'', Path = path, Value = VSecrets [a]\<rparr>
                # map (\<lambda>c. \<lparr>Operation = ''add'', Path = path @ ''/-'', Value = VSecret c\<rparr>) as)
      else map (\<lambda>c. \<lparr>Operation = ''add'', Path = path @ ''/-'', Value = VSecret c\<rparr>) add)"
  by (simp add: insertImagePullSecrets_def insertImagePullSecrets_loop_False split: list.splits)

text \<open>
  \<open>annotationUpdate\<close> on a single pair, with the test of line 238 spelled out on
  the map and on the value read.
\<close>

lemma annotationUpdate_single:
  "annotationUpdate dest [(k, v)] =
     [if (case dest of None \<Rightarrow> True | Some m \<Rightarrow> m k = None \<or> m k = Some [])
      then \<lparr>Operation = ''add'', Path = ''/metadata/annotations'', Value = VMap [(k, v)]\<rparr>
      else \<lparr>Operation = ''replace'', Path = ''/metadata/annotations/'' @ k, Value = VString v\<rparr>]"
  by (simp add: index_def split: option.splits)

lemma annotationUpdate_annotationOf:
  "annotationUpdate (Annotations metaData) [(k, v)] =
     [if annotationOf metaData k = []
      then \<lparr>Operation = ''add'', Path = ''/metadata/annotations'', Value = VMap [(k, v)]\<rparr>
      else \<lparr>Operation = ''replace'', Path = ''/metadata/annotations/'' @ k, Value = VString v\<rparr>]"
  by (simp add: annotationOf_def index_def split: option.splits)

lemma createpatch_ops_agree:
  assumes "Spec pod' = Spec pod"
    and "annotationOf (Meta pod') k = annotationOf (Meta pod) k"
  shows "createpatch_ops pod' cfg [(k, v)] = createpatch_ops pod cfg [(k, v)]"
  using assms by (simp only: createpatch_ops_def annotationUpdate_annotationOf)

subsection \<open>One admission review\<close>

text \<open>
  \<open>mutation\<close> branch by branch, with the configuration after
  \<open>applyDefaultsWorkaround\<close> written as \<open>defaulted\<close>.
\<close>

lemma mutation_cases:
  "mutation lib wh ar =
     (case Request ar of
        None \<Rightarrow> Inl NilPointerDereference
      | Some req \<Rightarrow>
          (case Unmarshal lib (Raw req) of
             Inl err \<Rightarrow>
               Inr (\<lparr>RespUID = [], Allowed = False, Result = Some \<lparr>Message = err\<rparr>,
                     Patch = None, PatchType = None\<rparr>, wh)
           | Inr pod \<Rightarrow>
               if \<not> requiredMutation lib (Meta pod)
               then Inr (\<lparr>RespUID = [], Allowed = True, Result = None,
                          Patch = None, PatchType = None\<rparr>, wh)
               else
                 (case Marshal lib (createpatch_ops pod (defaulted lib (SidecarConfig wh))
                         [(webhookStatusKey, ''injected'')]) of
                    Inl err \<Rightarrow>
                      Inr (\<lparr>RespUID = [], Allowed = False,
                            Result = Some \<lparr>Message = err\<rparr>,
                            Patch = None, PatchType = None\<rparr>,
                           wh\<lparr>SidecarConfig := defaulted lib (SidecarConfig wh)\<rparr>)
                  | Inr patch \<Rightarrow>
                      Inr (\<lparr>RespUID = [], Allowed = True, Result = None,
                            Patch = Some patch, PatchType = Some ''JSONPatch''\<rparr>,
                           wh\<lparr>SidecarConfig := defaulted lib (SidecarConfig wh)\<rparr>))))"
  by (simp add: mutation_def applyDefaultsWorkaround_def createpatch_def defaulted_def Let_def
      split: option.split sum.split)

lemma mutation_total:
  assumes "Request ar = Some req"
  shows "\<exists>resp wh'. mutation lib wh ar = Inr (resp, wh')"
  using assms
  by (auto simp: mutation_def applyDefaultsWorkaround_def Let_def split: sum.splits)

lemma mutation_state:
  assumes "mutation lib wh ar = Inr (resp, wh')"
  shows "wh' =
     (if (\<exists>req pod. Request ar = Some req \<and> Unmarshal lib (Raw req) = Inr pod
            \<and> requiredMutation lib (Meta pod))
      then wh\<lparr>SidecarConfig := defaulted lib (SidecarConfig wh)\<rparr>
      else wh)"
proof (cases "Request ar")
  case None
  with assms show ?thesis by (simp add: mutation_cases)
next
  case (Some req)
  show ?thesis
  proof (cases "Unmarshal lib (Raw req)")
    case (Inl err)
    with assms Some show ?thesis by (simp add: mutation_cases)
  next
    case (Inr pod)
    show ?thesis
    proof (cases "requiredMutation lib (Meta pod)")
      case True
      with assms Some Inr show ?thesis
        by (simp add: mutation_cases split: sum.splits)
    next
      case False
      with assms Some Inr show ?thesis by (simp add: mutation_cases)
    qed
  qed
qed

lemma mutation_agree:
  assumes "Request ar = Some req" and "Request ar' = Some req'"
    and "Unmarshal lib (Raw req) = Inr pod" and "Unmarshal lib (Raw req') = Inr pod'"
    and "requiredMutation lib (Meta pod') = requiredMutation lib (Meta pod)"
    and "createpatch_ops pod' (defaulted lib (SidecarConfig wh)) [(webhookStatusKey, ''injected'')] =
         createpatch_ops pod (defaulted lib (SidecarConfig wh)) [(webhookStatusKey, ''injected'')]"
  shows "mutation lib wh ar' = mutation lib wh ar"
proof -
  have "mutation lib wh ar' =
          (if \<not> requiredMutation lib (Meta pod)
           then Inr (\<lparr>RespUID = [], Allowed = True, Result = None,
                      Patch = None, PatchType = None\<rparr>, wh)
           else (case Marshal lib (createpatch_ops pod (defaulted lib (SidecarConfig wh))
                         [(webhookStatusKey, ''injected'')]) of
                    Inl err \<Rightarrow>
                      Inr (\<lparr>RespUID = [], Allowed = False,
                            Result = Some \<lparr>Message = err\<rparr>,
                            Patch = None, PatchType = None\<rparr>,
                           wh\<lparr>SidecarConfig := defaulted lib (SidecarConfig wh)\<rparr>)
                  | Inr patch \<Rightarrow>
                      Inr (\<lparr>RespUID = [], Allowed = True, Result = None,
                            Patch = Some patch, PatchType = Some ''JSONPatch''\<rparr>,
                           wh\<lparr>SidecarConfig := defaulted lib (SidecarConfig wh)\<rparr>)))"
    by (simp only: mutation_cases [of lib wh ar'] assms(2,4,5,6) option.case sum.case)
  also have "\<dots> = mutation lib wh ar"
    by (simp only: mutation_cases [of lib wh ar] assms(1,3) option.case sum.case)
  finally show ?thesis .
qed

text \<open>
  The result of \<open>mutation\<close> when mutation is required, with the operations it
  serialises written out down to the annotation operation.
\<close>

lemma mutation_required:
  assumes "Request ar = Some req" and "Unmarshal lib (Raw req) = Inr pod"
    and "requiredMutation lib (Meta pod)"
  shows "mutation lib wh ar =
       (case Marshal lib
               (insertContainer (SpecContainers (Spec pod))
                    (Containers (defaulted lib (SidecarConfig wh))) ''/spec/containers''
                @ insertVolume (SpecVolumes (Spec pod))
                    (Volumes (defaulted lib (SidecarConfig wh))) ''/spec/volumes''
                @ insertImagePullSecrets (SpecImagePullSecrets (Spec pod))
                    (ImagePullSecret (defaulted lib (SidecarConfig wh))) ''/spec/imagePullSecrets''
                @ [if annotationOf (Meta pod) ''sidecar-injector-mesher.io/status'' = []
                   then \<lparr>Operation = ''add'', Path = ''/metadata/annotations'',
                          Value = VMap [(''sidecar-injector-mesher.io/status'', ''injected'')]\<rparr>
                   else \<lparr>Operation = ''replace'',
                          Path = ''/metadata/annotations/sidecar-injector-mesher.io/status'',
                          Value = VString ''injected''\<rparr>]) of
          Inl err \<Rightarrow>
            Inr (\<lparr>RespUID = [], Allowed = False, Result = Some \<lparr>Message = err\<rparr>,
                  Patch = None, PatchType = None\<rparr>,
                 wh\<lparr>SidecarConfig := defaulted lib (SidecarConfig wh)\<rparr>)
        | Inr patch \<Rightarrow>
            Inr (\<lparr>RespUID = [], Allowed = True, Result = None,
                  Patch = Some patch, PatchType = Some ''JSONPatch''\<rparr>,
                 wh\<lparr>SidecarConfig := defaulted lib (SidecarConfig wh)\<rparr>))"
proof -
  have "createpatch_ops pod (defaulted lib (SidecarConfig wh)) [(webhookStatusKey, ''injected'')] =
          insertContainer (SpecContainers (Spec pod))
                    (Containers (defaulted lib (SidecarConfig wh))) ''/spec/containers''
                @ insertVolume (SpecVolumes (Spec pod))
                    (Volumes (defaulted lib (SidecarConfig wh))) ''/spec/volumes''
                @ insertImagePullSecrets (SpecImagePullSecrets (Spec pod))
                    (ImagePullSecret (defaulted lib (SidecarConfig wh))) ''/spec/imagePullSecrets''
                @ [if annotationOf (Meta pod) ''sidecar-injector-mesher.io/status'' = []
                   then \<lparr>Operation = ''add'', Path = ''/metadata/annotations'',
                          Value = VMap [(''sidecar-injector-mesher.io/status'', ''injected'')]\<rparr>
                   else \<lparr>Operation = ''replace'',
                          Path = ''/metadata/annotations/sidecar-injector-mesher.io/status'',
                          Value = VString ''injected''\<rparr>]"
    by (simp add: createpatch_ops_def annotationUpdate_annotationOf webhookStatusKey_def
        del: annotationUpdate.simps)
  with assms show ?thesis by (simp add: mutation_cases)
qed

subsection \<open>The handler\<close>

text \<open>
  The three ways through \<open>webhookMutation\<close>: nothing written, a decoding error
  reported, \<open>mutation\<close> called.
\<close>

lemma webhookMutation_no_reply:
  assumes "Body r = None \<or> Body r = Some [] \<or> ContentType r \<noteq> ''application/json''"
  shows "webhookMutation lib wh r = Inr (NoReply, wh)"
  using assms by (auto simp: webhookMutation_def Let_def)

lemma webhookMutation_decode_error:
  assumes "Body r = Some body" and "body \<noteq> []" and "ContentType r = ''application/json''"
    and "Decode lib body = (Some err, aRequest)"
  shows "\<exists>rv bytes. webhookMutation lib wh r = Inr (Reply rv bytes, wh)"
  using assms by (simp add: webhookMutation_def Let_def)

lemma webhookMutation_decoded:
  assumes "Body r = Some body" and "body \<noteq> []" and "ContentType r = ''application/json''"
    and "Decode lib body = (None, aRequest)"
  shows "webhookMutation lib wh r =
           (case mutation lib wh aRequest of
              Inl panic \<Rightarrow> Inl panic
            | Inr (aResponse, wh') \<Rightarrow>
                Inr (Reply \<lparr>Request = None,
                            Response = Some (case Request aRequest of
                                               None \<Rightarrow> aResponse
                                             | Some req \<Rightarrow> aResponse\<lparr>RespUID := UID req\<rparr>)\<rparr>
                       (case MarshalReview lib
                               \<lparr>Request = None,
                                Response = Some (case Request aRequest of
                                                   None \<Rightarrow> aResponse
                                                 | Some req \<Rightarrow> aResponse\<lparr>RespUID := UID req\<rparr>)\<rparr> of
                          Inl err \<Rightarrow> []
                        | Inr bytes \<Rightarrow> bytes),
                     wh'))"
  using assms by (simp add: webhookMutation_def Let_def split: sum.split prod.split)

lemma webhookMutation_state:
  assumes "webhookMutation lib wh r = Inr (out, wh')"
  shows "wh' = wh \<or> (\<exists>resp ar. mutation lib wh ar = Inr (resp, wh'))"
proof (cases "Body r = None \<or> Body r = Some [] \<or> ContentType r \<noteq> ''application/json''")
  case True
  from webhookMutation_no_reply [OF True, of lib wh] assms show ?thesis by simp
next
  case False
  then obtain body where b: "Body r = Some body" "body \<noteq> []"
    and c: "ContentType r = ''application/json''"
    by (cases "Body r") auto
  obtain derr aRequest where d: "Decode lib body = (derr, aRequest)"
    by (cases "Decode lib body")
  show ?thesis
  proof (cases derr)
    case (Some err)
    with webhookMutation_decode_error [OF b c, of lib err aRequest wh] d assms
    show ?thesis by auto
  next
    case None
    show ?thesis
    proof (cases "mutation lib wh aRequest")
      case (Inl e)
      with webhookMutation_decoded [OF b c, of lib aRequest wh] d None assms
      show ?thesis by simp
    next
      case (Inr x)
      obtain resp w where x: "x = (resp, w)" by (cases x)
      with webhookMutation_decoded [OF b c, of lib aRequest wh] d None assms Inr
      have "wh' = w" by simp
      with Inr x show ?thesis by blast
    qed
  qed
qed

text \<open>
  The handler panics exactly on a decoded review without a request.
\<close>

lemma webhookMutation_panics_iff:
  "webhookMutation lib wh r = Inl e \<longleftrightarrow>
     (\<exists>body aRequest. Body r = Some body \<and> body \<noteq> []
        \<and> ContentType r = ''application/json''
        \<and> Decode lib body = (None, aRequest) \<and> Request aRequest = None)"
proof (cases "Body r = None \<or> Body r = Some [] \<or> ContentType r \<noteq> ''application/json''")
  case True
  from webhookMutation_no_reply [OF True, of lib wh] True show ?thesis by auto
next
  case False
  then obtain body where b: "Body r = Some body" "body \<noteq> []"
    and c: "ContentType r = ''application/json''"
    by (cases "Body r") auto
  obtain derr aRequest where d: "Decode lib body = (derr, aRequest)"
    by (cases "Decode lib body")
  show ?thesis
  proof (cases derr)
    case (Some err)
    with webhookMutation_decode_error [OF b c, of lib err aRequest wh] d b c
    show ?thesis by auto
  next
    case None
    show ?thesis
    proof (cases "Request aRequest")
      case req: None
      then have "mutation lib wh aRequest = Inl NilPointerDereference"
        by (simp add: mutation_cases)
      with webhookMutation_decoded [OF b c, of lib aRequest wh] d None req b c
      show ?thesis by (cases e) auto
    next
      case req: (Some req)
      from mutation_total [OF req, of lib wh]
      obtain resp wh' where "mutation lib wh aRequest = Inr (resp, wh')" by blast
      with webhookMutation_decoded [OF b c, of lib aRequest wh] d None req b c
      show ?thesis by auto
    qed
  qed
qed

subsection \<open>The loop and the lock\<close>

lemma Run_select_state:
  "Server (Run_select io p st ev) = Server st
   \<or> (\<exists>fs sidecarConfig pair. ev = TimerFired fs
        \<and> loadConfig io fs (SidecarConfigFile p) = Inr sidecarConfig
        \<and> LoadX509KeyPair io fs (CertFile p) (KeyFile p) = Inr pair
        \<and> Server (Run_select io p st ev) =
            (Server st)\<lparr>SidecarConfig := sidecarConfig, TLSConfig := pair\<rparr>)"
proof (cases ev)
  case (TimerFired fs)
  show ?thesis
  proof (cases "loadConfig io fs (SidecarConfigFile p)")
    case (Inl e)
    with TimerFired show ?thesis by (simp add: Run_select_def reload_def)
  next
    case (Inr sidecarConfig)
    show ?thesis
    proof (cases "LoadX509KeyPair io fs (CertFile p) (KeyFile p)")
      case (Inl e)
      with TimerFired Inr show ?thesis by (simp add: Run_select_def reload_def)
    next
      case pair: (Inr pair)
      with TimerFired Inr show ?thesis by (simp add: Run_select_def reload_def)
    qed
  qed
qed (simp_all add: Run_select_def)

text \<open>
  A run of the loop in which every reload fails keeps the server, and a burst of
  watcher events followed by the timer makes one reload.
\<close>

lemma Run_loop_failed_reloads:
  assumes "\<forall>ev \<in> set evs. \<forall>fs. ev = TimerFired fs \<longrightarrow>
             isl (loadConfig io fs (SidecarConfigFile p))
             \<or> isl (LoadX509KeyPair io fs (CertFile p) (KeyFile p))"
  shows "Server (Run_loop io p st evs) = Server st"
  using assms
proof (induction evs arbitrary: st)
  case Nil
  then show ?case by simp
next
  case (Cons ev evs)
  have step: "Server (Run_select io p st ev) = Server st"
  proof (cases ev)
    case (TimerFired fs)
    with Cons.prems have "isl (loadConfig io fs (SidecarConfigFile p))
             \<or> isl (LoadX509KeyPair io fs (CertFile p) (KeyFile p))"
      by simp
    then have "reload io p fs (Server st) = Server st"
      by (auto simp: reload_def isl_def split: sum.splits)
    with TimerFired show ?thesis by (simp add: Run_select_def)
  qed (simp_all add: Run_select_def)
  show ?case
  proof (cases "Returned (Run_select io p st ev)")
    case True
    with step show ?thesis by simp
  next
    case False
    from Cons.prems have "\<forall>ev \<in> set evs. \<forall>fs. ev = TimerFired fs \<longrightarrow>
             isl (loadConfig io fs (SidecarConfigFile p))
             \<or> isl (LoadX509KeyPair io fs (CertFile p) (KeyFile p))"
      by simp
    from Cons.IH [OF this, of "Run_select io p st ev"] False step show ?thesis by simp
  qed
qed

lemma Run_loop_burst:
  assumes "\<not> Returned st"
  shows "Run_loop io p st (replicate (Suc n) (WatchEvent True) @ [TimerFired fs]) =
           st\<lparr>Server := reload io p fs (Server st), TimerArmed := False\<rparr>"
proof -
  have arm: "Run_loop io p s (replicate k (WatchEvent True) @ [TimerFired fs]) =
               s\<lparr>Server := reload io p fs (Server s), TimerArmed := False\<rparr>"
    if "\<not> Returned s" "TimerArmed s" for s :: "('a, 'b, 'c, 'd) RunState" and k
    using that
  proof (induction k arbitrary: s)
    case 0
    then show ?case by (simp add: Run_select_def)
  next
    case (Suc k)
    have "Run_select io p s (WatchEvent True) = s"
      using Suc.prems by (simp add: Run_select_def)
    with Suc show ?case by simp
  qed
  have "Run_loop io p st (replicate (Suc n) (WatchEvent True) @ [TimerFired fs]) =
          Run_loop io p (st\<lparr>TimerArmed := True\<rparr>) (replicate n (WatchEvent True) @ [TimerFired fs])"
    using assms by (simp add: Run_select_def)
  also have "\<dots> = (st\<lparr>TimerArmed := True\<rparr>)\<lparr>Server := reload io p fs (Server st), TimerArmed := False\<rparr>"
    using arm [of "st\<lparr>TimerArmed := True\<rparr>" n] assms by simp
  finally show ?thesis by simp
qed

text \<open>
  The access sequences agree with the functions they describe: a reload without
  accesses leaves the server as it is and one with accesses assigns both fields;
  a review without accesses gets the same response from every server state and
  leaves that state alone.
\<close>

lemma reload_without_access:
  assumes "reload_accesses io p fs = []"
  shows "reload io p fs wh = wh"
  using assms by (simp add: reload_accesses_def reload_def split: sum.splits)

lemma reload_with_access:
  assumes "reload_accesses io p fs \<noteq> []"
  shows "reload_accesses io p fs = [LockLock, WriteSidecarConfig, WriteTLSConfig, LockUnlock]
         \<and> (\<exists>sidecarConfig pair.
               reload io p fs wh = wh\<lparr>SidecarConfig := sidecarConfig, TLSConfig := pair\<rparr>)"
  using assms by (auto simp: reload_accesses_def reload_def split: sum.splits)

lemma mutation_accesses_empty_iff:
  "mutation_accesses lib ar = [] \<longleftrightarrow>
     \<not> (\<exists>req pod. Request ar = Some req \<and> Unmarshal lib (Raw req) = Inr pod
            \<and> requiredMutation lib (Meta pod))"
  by (simp add: mutation_accesses_def split: option.splits sum.splits)

lemma mutation_without_access:
  assumes "mutation_accesses lib ar = []" and "mutation lib wh ar = Inr (resp, wh')"
  shows "wh' = wh \<and> mutation lib wh2 ar = Inr (resp, wh2)"
proof (cases "Request ar")
  case None
  with assms show ?thesis by (simp add: mutation_cases)
next
  case (Some req)
  show ?thesis
  proof (cases "Unmarshal lib (Raw req)")
    case (Inl err)
    with assms Some show ?thesis by (auto simp: mutation_cases)
  next
    case (Inr pod)
    with assms(1) Some have "\<not> requiredMutation lib (Meta pod)"
      by (simp add: mutation_accesses_empty_iff)
    with assms Some Inr show ?thesis by (auto simp: mutation_cases)
  qed
qed

text \<open>
  The reload keeps the lock discipline on every path; \<open>mutation\<close> keeps it only
  on the paths that touch nothing.
\<close>

lemma reload_accesses_guarded: "guarded False (reload_accesses io p fs)"
  by (simp add: reload_accesses_def split: sum.splits)

lemma mutation_accesses_guarded_iff:
  "guarded False (mutation_accesses lib ar) \<longleftrightarrow> mutation_accesses lib ar = []"
  by (simp add: mutation_accesses_def split: option.splits sum.splits)

section \<open>Evaluation of the concrete inputs\<close>

lemma lower_Yes: "toLowerASCII ''Yes'' = ''yes''" by code_simp

lemma lower_y: "toLowerASCII ''y'' = ''y''" by code_simp

lemma lower_Injected: "toLowerASCII ''Injected'' = ''injected''" by code_simp

lemma lower_empty: "toLowerASCII [] = []" by code_simp

lemma keys_distinct: "webhookInjectKey \<noteq> webhookStatusKey"
  by (simp add: webhookInjectKey_def webhookStatusKey_def)

lemma example_lib_ToLower: "ToLower example_lib = toLowerASCII"
  by (simp add: example_lib_def)

lemma example_lib_Unmarshal:
  "Unmarshal example_lib ''pod-yes'' = Inr pod_yes"
  "Unmarshal example_lib ''pod-yes-labelled'' = Inr pod_yes_labelled"
  "Unmarshal example_lib ''pod-injected'' = Inr pod_injected"
  "Unmarshal example_lib ''{'' = Inl ''unexpected end of JSON input''"
  by (simp_all add: example_lib_def)

lemma example_lib_Marshal:
  "Marshal example_lib ops = Inr (concat (map (\<lambda>p. Operation p @ '' '' @ Path p @ '';'') ops))"
  by (simp add: example_lib_def)

lemma example_lib_Default:
  "DefaultContainer example_lib = defaultPath"
  "DefaultVolume example_lib = (\<lambda>v. v)"
  "DefaultSecret example_lib = (\<lambda>s. s)"
  by (simp_all add: example_lib_def)

lemma example_lib_Decode:
  "Decode example_lib ''review-without-request'' = (None, review_without_request)"
  "Decode example_lib ''review-yes'' = (None, review_yes)"
  "Decode example_lib ''review-injected'' = (None, review_injected)"
  by (simp_all add: example_lib_def)

lemma example_lib_MarshalReview: "MarshalReview example_lib rv = Inr ''review''"
  by (simp add: example_lib_def)

lemma annotationOf_pod_yes:
  "annotationOf (Meta pod_yes) webhookStatusKey = []"
  "annotationOf (Meta pod_yes) webhookInjectKey = ''Yes''"
  using keys_distinct by (simp_all add: annotationOf_def pod_yes_def)

lemma annotationOf_pod_yes_labelled:
  "annotationOf (Meta pod_yes_labelled) webhookStatusKey = []"
  "annotationOf (Meta pod_yes_labelled) webhookInjectKey = ''Yes''"
  by (simp_all add: annotationOf_def pod_yes_labelled_def webhookStatusKey_def webhookInjectKey_def)

lemma annotationOf_pod_injected:
  "annotationOf (Meta pod_injected) webhookStatusKey = ''Injected''"
  "annotationOf (Meta pod_injected) webhookInjectKey = ''y''"
  using keys_distinct by (simp_all add: annotationOf_def pod_injected_def)

lemma annotationOf_pod_plain: "annotationOf (Meta pod_plain) k = []"
  by (simp add: annotationOf_def pod_plain_def)

lemma annotationOf_meta_with:
  "annotationOf (meta_with inject status) webhookInjectKey = (case inject of None \<Rightarrow> [] | Some v \<Rightarrow> v)"
  "annotationOf (meta_with inject status) webhookStatusKey = (case status of None \<Rightarrow> [] | Some v \<Rightarrow> v)"
  using keys_distinct by (simp_all add: annotationOf_def meta_with_def)

lemma lower_grid:
  "toLowerASCII ''n'' = ''n''" "toLowerASCII ''Y'' = ''y''" "toLowerASCII ''no'' = ''no''"
  "toLowerASCII ''YES'' = ''yes''" "toLowerASCII ''pending'' = ''pending''"
  by code_simp+

text \<open>
  The decision over six values of the inject annotation and three values of the
  status annotation.
\<close>

lemma policy_grid:
  "\<forall>inject \<in> set [None, Some ''n'', Some ''Yes'', Some ''Y'', Some ''no'', Some ''YES''].
   \<forall>status \<in> set [None, Some ''Injected'', Some ''pending''].
     requiredMutation example_lib (meta_with inject status) =
       (inject \<in> {Some ''Yes'', Some ''Y'', Some ''YES''} \<and> status \<noteq> Some ''Injected'')"
  by (simp add: requiredMutation_iff annotationOf_meta_with example_lib_ToLower
      lower_grid lower_Yes lower_Injected lower_empty)

lemma required_pod_yes: "requiredMutation example_lib (Meta pod_yes)"
  using keys_distinct
  by (simp add: requiredMutation_def example_lib_ToLower pod_yes_def index_def lower_Yes lower_empty)

lemma required_pod_yes_labelled: "requiredMutation example_lib (Meta pod_yes_labelled)"
  by (simp add: requiredMutation_def example_lib_ToLower pod_yes_labelled_def index_def lower_Yes lower_empty
      webhookInjectKey_def webhookStatusKey_def)

lemma required_pod_bare: "requiredMutation example_lib (Meta pod_bare)"
  using keys_distinct
  by (simp add: requiredMutation_def example_lib_ToLower pod_bare_def index_def lower_empty
      lower_grid)

lemma required_pod_pending: "requiredMutation example_lib (Meta pod_pending)"
  using keys_distinct
  by (simp add: requiredMutation_def example_lib_ToLower pod_pending_def index_def lower_y
      lower_grid)


lemma annotationUpdate_pod_bare:
  "annotationUpdate (Annotations (Meta pod_bare)) [(webhookStatusKey, ''injected'')] =
     ([\<lparr>Operation = ''add'', Path = ''/metadata/annotations'',
        Value = VMap [(webhookStatusKey, ''injected'')]\<rparr>]
      :: (string \<times> string, string, string) operation list)"
  using keys_distinct by (simp add: pod_bare_def index_def)

lemma createpatch_ops_pod_yes:
  "createpatch_ops pod_yes
      \<lparr>Containers = [(''mesher'', ''/dev/termination-log'')], Volumes = [''certs''],
       ImagePullSecret = []\<rparr> [(webhookStatusKey, ''injected'')] =
   [\<lparr>Operation = ''add'', Path = ''/spec/containers/-'',
      Value = VContainer (''mesher'', ''/dev/termination-log'')\<rparr>,
    \<lparr>Operation = ''add'', Path = ''/spec/volumes'', Value = VVolumes [''certs'']\<rparr>,
    \<lparr>Operation = ''add'', Path = ''/metadata/annotations'',
      Value = VMap [(webhookStatusKey, ''injected'')]\<rparr>]"
  using keys_distinct
  by (simp add: createpatch_ops_def insertContainer_def insertVolume_def
      insertImagePullSecrets_def pod_yes_def index_def)

lemma defaulted_example_server:
  "defaulted example_lib (SidecarConfig example_server) =
     \<lparr>Containers = [(''mesher'', ''/dev/termination-log'')], Volumes = [''certs''],
      ImagePullSecret = []\<rparr>"
  by (simp add: defaulted_def example_lib_Default example_server_def defaultPath_def)

lemma mutation_review_yes:
  "mutation example_lib example_server review_yes =
     Inr (\<lparr>RespUID = [], Allowed = True, Result = None,
           Patch = Some ''add /spec/containers/-;add /spec/volumes;add /metadata/annotations;'',
           PatchType = Some ''JSONPatch''\<rparr>,
          \<lparr>SidecarConfig = \<lparr>Containers = [(''mesher'', ''/dev/termination-log'')],
                             Volumes = [''certs''], ImagePullSecret = []\<rparr>,
           TLSConfig = ''pair-1''\<rparr>)"
  by (simp add: mutation_def review_yes_def example_lib_Unmarshal required_pod_yes
      applyDefaultsWorkaround_def example_lib_Default example_server_def defaultPath_def
      createpatch_def createpatch_ops_pod_yes example_lib_Marshal)

lemma webhookMutation_review_yes:
  "webhookMutation example_lib example_server
      \<lparr>Body = Some ''review-yes'', ContentType = ''application/json''\<rparr> =
     Inr (Reply \<lparr>Request = None,
                 Response = Some \<lparr>RespUID = ''uid-1'', Allowed = True, Result = None,
                   Patch = Some ''add /spec/containers/-;add /spec/volumes;add /metadata/annotations;'',
                   PatchType = Some ''JSONPatch''\<rparr>\<rparr> ''review'',
          \<lparr>SidecarConfig = \<lparr>Containers = [(''mesher'', ''/dev/termination-log'')],
                             Volumes = [''certs''], ImagePullSecret = []\<rparr>,
           TLSConfig = ''pair-1''\<rparr>)"
  by (simp add: webhookMutation_def example_lib_Decode mutation_review_yes
      example_lib_MarshalReview, simp add: review_yes_def)

lemma loadConfig_bad_config:
  "loadConfig example_io fs_bad_config (SidecarConfigFile example_params) =
     Inl ''yaml: did not find expected key''"
  by (simp add: loadConfig_def example_io_def fs_bad_config_def example_params_def)

lemma loadConfig_bad_key:
  "loadConfig example_io fs_bad_key (SidecarConfigFile example_params) =
     Inr \<lparr>Containers = [(''proxy'', [])], Volumes = [], ImagePullSecret = []\<rparr>"
  by (simp add: loadConfig_def example_io_def fs_bad_key_def example_params_def)

lemma LoadX509KeyPair_bad_key:
  "LoadX509KeyPair example_io fs_bad_key (CertFile example_params) (KeyFile example_params) =
     Inl ''tls: private key does not match public key''"
  by (simp add: example_io_def fs_bad_key_def example_params_def)

lemma loadConfig_good:
  "loadConfig example_io fs_good (SidecarConfigFile example_params) =
     Inr \<lparr>Containers = [(''proxy'', [])], Volumes = [], ImagePullSecret = []\<rparr>"
  by (simp add: loadConfig_def example_io_def fs_good_def example_params_def)

lemma LoadX509KeyPair_good:
  "LoadX509KeyPair example_io fs_good (CertFile example_params) (KeyFile example_params) =
     Inr ''pair-2''"
  by (simp add: example_io_def fs_good_def example_params_def)

lemma reload_good:
  "reload example_io example_params fs_good example_server =
     \<lparr>SidecarConfig = \<lparr>Containers = [(''proxy'', [])], Volumes = [], ImagePullSecret = []\<rparr>,
      TLSConfig = ''pair-2''\<rparr>"
  by (simp add: reload_def loadConfig_good LoadX509KeyPair_good example_server_def)

section \<open>The claims\<close>

subsection \<open>C1: the mutation policy\<close>

text \<open>
  C1. For every decoded pod, mutation is required exactly when the lower-cased
  inject annotation is \<open>y\<close> or \<open>yes\<close> and the lower-cased status annotation is
  not \<open>injected\<close>, a missing annotation reading as the empty string; and for every
  review whose raw object decodes to a pod in any other combination, \<open>mutation\<close>
  returns \<open>Allowed = true\<close> with no patch, no message, and the server untouched.
\<close>

theorem mutation_policy:
  "(requiredMutation lib metaData \<longleftrightarrow>
      (ToLower lib (annotationOf metaData webhookInjectKey) = ''y''
         \<or> ToLower lib (annotationOf metaData webhookInjectKey) = ''yes'')
      \<and> ToLower lib (annotationOf metaData webhookStatusKey) \<noteq> ''injected'')
   \<and> (Request ar = Some req \<and> Unmarshal lib (Raw req) = Inr pod
        \<and> \<not> ((ToLower lib (annotationOf (Meta pod) webhookInjectKey) = ''y''
               \<or> ToLower lib (annotationOf (Meta pod) webhookInjectKey) = ''yes'')
              \<and> ToLower lib (annotationOf (Meta pod) webhookStatusKey) \<noteq> ''injected'')
      \<longrightarrow> mutation lib wh ar =
            Inr (\<lparr>RespUID = [], Allowed = True, Result = None, Patch = None, PatchType = None\<rparr>, wh))"
  using requiredMutation_iff mutation_not_required by blast

text \<open>
  At the pod annotated \<open>inject = Yes\<close> mutation is required; at the pod annotated
  \<open>inject = y\<close>, \<open>status = Injected\<close> and at the pod without annotations it is not,
  and the review of the former is allowed unpatched.
\<close>

theorem mutation_policy_witness:
  "requiredMutation example_lib (Meta pod_yes)
   \<and> \<not> requiredMutation example_lib (Meta pod_injected)
   \<and> \<not> requiredMutation example_lib (Meta pod_plain)
   \<and> Request review_injected = Some \<lparr>UID = ''uid-3'', Raw = ''pod-injected''\<rparr>
   \<and> Unmarshal example_lib (Raw \<lparr>UID = ''uid-3'', Raw = ''pod-injected''\<rparr>) = Inr pod_injected
   \<and> toLowerASCII (annotationOf (Meta pod_injected) webhookStatusKey) = ''injected''
   \<and> mutation example_lib example_server review_injected =
        Inr (\<lparr>RespUID = [], Allowed = True, Result = None, Patch = None, PatchType = None\<rparr>,
             example_server)"
  using mutation_policy [of example_lib "Meta pod_yes" review_injected
           "\<lparr>UID = ''uid-3'', Raw = ''pod-injected''\<rparr>" pod_injected example_server]
        mutation_policy [of example_lib "Meta pod_injected" review_injected
           "\<lparr>UID = ''uid-3'', Raw = ''pod-injected''\<rparr>" pod_injected example_server]
        mutation_policy [of example_lib "Meta pod_plain" review_injected
           "\<lparr>UID = ''uid-3'', Raw = ''pod-injected''\<rparr>" pod_injected example_server]
  by (simp add: example_lib_ToLower annotationOf_pod_injected annotationOf_pod_yes
      annotationOf_pod_plain lower_Yes lower_Injected lower_empty lower_y review_injected_def
      example_lib_Unmarshal)

subsection \<open>C2: containers, volumes and pull secrets\<close>

text \<open>
  C2, as the code has it. In the patch of any pod and sidecar configuration, the
  container part is: for an empty container list of the pod and a non-empty
  incoming list, one \<open>add\<close> at \<open>/spec/containers\<close> whose value is the one-element
  list of the first incoming container, then one \<open>add\<close> at \<open>/spec/containers/-\<close>
  for each further incoming container, in order (and nothing for an empty
  incoming list); for a non-empty container list of the pod, one \<open>add\<close> at
  \<open>/spec/containers/-\<close> per incoming container, in order. Volumes at
  \<open>/spec/volumes\<close> and pull secrets at \<open>/spec/imagePullSecrets\<close> follow in the same
  way, and the annotation part comes last.
\<close>

theorem patch_lists_first_then_append:
  "createpatch_ops pod sidecarConfig annotations =
     (if SpecContainers (Spec pod) = []
      then (case Containers sidecarConfig of
              [] \<Rightarrow> []
            | a # as \<Rightarrow>
                \<lparr>Operation = ''add'', Path = ''/spec/containers'', Value = VContainers [a]\<rparr>
                # map (\<lambda>c. \<lparr>Operation = ''add'', Path = ''/spec/containers/-'',
                             Value = VContainer c\<rparr>) as)
      else map (\<lambda>c. \<lparr>Operation = ''add'', Path = ''/spec/containers/-'', Value = VContainer c\<rparr>)
             (Containers sidecarConfig))
     @ (if SpecVolumes (Spec pod) = []
        then (case Volumes sidecarConfig of
                [] \<Rightarrow> []
              | a # as \<Rightarrow>
                  \<lparr>Operation = ''add'', Path = ''/spec/volumes'', Value = VVolumes [a]\<rparr>
                  # map (\<lambda>c. \<lparr>Operation = ''add'', Path = ''/spec/volumes/-'',
                               Value = VVolume c\<rparr>) as)
        else map (\<lambda>c. \<lparr>Operation = ''add'', Path = ''/spec/volumes/-'', Value = VVolume c\<rparr>)
               (Volumes sidecarConfig))
     @ (if SpecImagePullSecrets (Spec pod) = []
        then (case ImagePullSecret sidecarConfig of
                [] \<Rightarrow> []
              | a # as \<Rightarrow>
                  \<lparr>Operation = ''add'', Path = ''/spec/imagePullSecrets'', Value = VSecrets [a]\<rparr>
                  # map (\<lambda>c. \<lparr>Operation = ''add'', Path = ''/spec/imagePullSecrets/-'',
                               Value = VSecret c\<rparr>) as)
        else map (\<lambda>c. \<lparr>Operation = ''add'', Path = ''/spec/imagePullSecrets/-'',
                         Value = VSecret c\<rparr>)
               (ImagePullSecret sidecarConfig))
     @ annotationUpdate (Annotations (Meta pod)) annotations"
  unfolding createpatch_ops_def
  by (simp only: insertContainer_eq insertVolume_eq insertImagePullSecrets_eq append.simps)

text \<open>
  Two incoming containers, for a pod without containers and for a pod with one.
\<close>

theorem patch_lists_first_then_append_witness:
  "createpatch_ops pod_bare two_sidecars [(webhookStatusKey, ''injected'')] =
     [\<lparr>Operation = ''add'', Path = ''/spec/containers'',
        Value = VContainers [(''mesher'', ''/dev/termination-log'')]\<rparr>,
      \<lparr>Operation = ''add'', Path = ''/spec/containers/-'',
        Value = VContainer (''proxy'', ''/dev/termination-log'')\<rparr>,
      \<lparr>Operation = ''add'', Path = ''/metadata/annotations'',
        Value = VMap [(webhookStatusKey, ''injected'')]\<rparr>]
   \<and> createpatch_ops pod_yes two_sidecars [(webhookStatusKey, ''injected'')] =
     [\<lparr>Operation = ''add'', Path = ''/spec/containers/-'',
        Value = VContainer (''mesher'', ''/dev/termination-log'')\<rparr>,
      \<lparr>Operation = ''add'', Path = ''/spec/containers/-'',
        Value = VContainer (''proxy'', ''/dev/termination-log'')\<rparr>,
      \<lparr>Operation = ''add'', Path = ''/metadata/annotations'',
        Value = VMap [(webhookStatusKey, ''injected'')]\<rparr>]"
proof -
  have bare: "Spec pod_bare = \<lparr>SpecContainers = [], SpecVolumes = [], SpecImagePullSecrets = []\<rparr>"
    by (simp add: pod_bare_def)
  have yes: "Spec pod_yes = \<lparr>SpecContainers = [(''nginx'', ''/dev/termination-log'')],
                              SpecVolumes = [], SpecImagePullSecrets = []\<rparr>"
    by (simp add: pod_yes_def)
  have ann: "annotationUpdate (Annotations (Meta pod_yes)) [(webhookStatusKey, ''injected'')] =
     ([\<lparr>Operation = ''add'', Path = ''/metadata/annotations'',
        Value = VMap [(webhookStatusKey, ''injected'')]\<rparr>]
      :: (string \<times> string, string, string) operation list)"
    using keys_distinct by (simp add: pod_yes_def index_def)
  show ?thesis
    using patch_lists_first_then_append [of pod_bare two_sidecars "[(webhookStatusKey, ''injected'')]"]
      patch_lists_first_then_append [of pod_yes two_sidecars "[(webhookStatusKey, ''injected'')]"]
    by (simp add: bare yes ann annotationUpdate_pod_bare two_sidecars_def del: annotationUpdate.simps)
qed

text \<open>
  C2 as stated fails: for a pod that requires mutation and has no container, and a
  sidecar configuration with two containers, the container part is two operations,
  not one operation carrying the whole incoming list.
\<close>

theorem whole_list_counterexample:
  "requiredMutation example_lib (Meta pod_bare)
   \<and> SpecContainers (Spec pod_bare) = []
   \<and> insertContainer (SpecContainers (Spec pod_bare)) (Containers two_sidecars) ''/spec/containers'' =
     ([\<lparr>Operation = ''add'', Path = ''/spec/containers'',
        Value = VContainers [(''mesher'', ''/dev/termination-log'')]\<rparr>,
      \<lparr>Operation = ''add'', Path = ''/spec/containers/-'',
        Value = VContainer (''proxy'', ''/dev/termination-log'')\<rparr>]
      :: (string \<times> string, string, string) operation list)
   \<and> insertContainer (SpecContainers (Spec pod_bare)) (Containers two_sidecars) ''/spec/containers'' \<noteq>
     ([\<lparr>Operation = ''add'', Path = ''/spec/containers'', Value = VContainers (Containers two_sidecars)\<rparr>]
      :: (string \<times> string, string, string) operation list)"
  using required_pod_bare by (simp add: insertContainer_def pod_bare_def two_sidecars_def)

subsection \<open>C3: the annotation part\<close>

text \<open>
  C3. In the patch of every pod (so of every pod that requires mutation), after the
  container, volume and pull-secret parts, the annotation part is exactly one
  operation: if the pod has no annotations map, or the map lacks the status key
  or holds the empty string for it, an \<open>add\<close> at \<open>/metadata/annotations\<close> whose value
  is the one-key map from the status key to \<open>injected\<close>; otherwise a \<open>replace\<close> at
  \<open>/metadata/annotations/\<close> followed by the status key, with value \<open>injected\<close>.
\<close>

theorem annotation_patch_branches:
  "createpatch_ops pod sidecarConfig [(webhookStatusKey, ''injected'')] =
     insertContainer (SpecContainers (Spec pod)) (Containers sidecarConfig) ''/spec/containers''
     @ insertVolume (SpecVolumes (Spec pod)) (Volumes sidecarConfig) ''/spec/volumes''
     @ insertImagePullSecrets (SpecImagePullSecrets (Spec pod)) (ImagePullSecret sidecarConfig)
         ''/spec/imagePullSecrets''
     @ [if (case Annotations (Meta pod) of
              None \<Rightarrow> True
            | Some m \<Rightarrow> m webhookStatusKey = None \<or> m webhookStatusKey = Some [])
        then \<lparr>Operation = ''add'', Path = ''/metadata/annotations'',
               Value = VMap [(webhookStatusKey, ''injected'')]\<rparr>
        else \<lparr>Operation = ''replace'', Path = ''/metadata/annotations/'' @ webhookStatusKey,
               Value = VString ''injected''\<rparr>]"
  by (simp only: createpatch_ops_def annotationUpdate_single)

text \<open>
  Both branches at pods that require mutation: status \<open>pending\<close> is replaced, a
  missing status is added.
\<close>

theorem annotation_patch_branches_witness:
  "requiredMutation example_lib (Meta pod_pending)
   \<and> createpatch_ops pod_pending two_sidecars [(webhookStatusKey, ''injected'')] =
     [\<lparr>Operation = ''add'', Path = ''/spec/containers'',
        Value = VContainers [(''mesher'', ''/dev/termination-log'')]\<rparr>,
      \<lparr>Operation = ''add'', Path = ''/spec/containers/-'',
        Value = VContainer (''proxy'', ''/dev/termination-log'')\<rparr>,
      \<lparr>Operation = ''replace'',
        Path = ''/metadata/annotations/sidecar-injector-mesher.io/status'',
        Value = VString ''injected''\<rparr>]
   \<and> createpatch_ops pod_bare two_sidecars [(webhookStatusKey, ''injected'')] =
     [\<lparr>Operation = ''add'', Path = ''/spec/containers'',
        Value = VContainers [(''mesher'', ''/dev/termination-log'')]\<rparr>,
      \<lparr>Operation = ''add'', Path = ''/spec/containers/-'',
        Value = VContainer (''proxy'', ''/dev/termination-log'')\<rparr>,
      \<lparr>Operation = ''add'', Path = ''/metadata/annotations'',
        Value = VMap [(''sidecar-injector-mesher.io/status'', ''injected'')]\<rparr>]"
  using annotation_patch_branches [of pod_pending two_sidecars]
    annotation_patch_branches [of pod_bare two_sidecars] required_pod_pending
  by (simp add: pod_pending_def pod_bare_def two_sidecars_def insertContainer_def
      insertVolume_def insertImagePullSecrets_def webhookStatusKey_def webhookInjectKey_def)

subsection \<open>C4: a review without a request\<close>

text \<open>
  C4 fails on the code. A body that decodes to a review without a request reaches
  \<open>mutation\<close>, which reads \<open>req.Object.Raw\<close> through the nil pointer at line 275:
  the handler panics and nothing is written, although line 355 expects such a
  review.
\<close>

theorem nil_request_panics:
  "Decode example_lib ''review-without-request'' = (None, \<lparr>Request = None, Response = None\<rparr>)
   \<and> webhookMutation example_lib example_server
        \<lparr>Body = Some ''review-without-request'', ContentType = ''application/json''\<rparr> =
      Inl NilPointerDereference"
  by (simp add: webhookMutation_def example_lib_Decode mutation_def review_without_request_def)

subsection \<open>C5: the UID of the response\<close>

text \<open>
  C5. For every request whose body reaches the decoder and leaves a review with a
  request in it, the handler writes an envelope whose response carries the UID of
  that request.
\<close>

theorem response_uid_mirrors_request:
  assumes "Body r = Some body" and "body \<noteq> []" and "ContentType r = ''application/json''"
    and "Decode lib body = (derr, ar)" and "Request ar = Some req"
  shows "\<exists>resp bytes wh'.
           webhookMutation lib wh r =
             Inr (Reply \<lparr>Request = None, Response = Some resp\<rparr> bytes, wh')
           \<and> RespUID resp = UID req"
proof (cases derr)
  case None
  obtain resp wh' where m: "mutation lib wh ar = Inr (resp, wh')"
    using mutation_total [OF assms(5)] by blast
  show ?thesis
    using assms None m by (simp add: webhookMutation_def Let_def)
next
  case (Some err)
  show ?thesis
    using assms Some by (simp add: webhookMutation_def Let_def)
qed

theorem response_uid_mirrors_request_witness:
  "Body \<lparr>Body = Some ''review-yes'', ContentType = ''application/json''\<rparr> = Some ''review-yes''
   \<and> ''review-yes'' \<noteq> []
   \<and> ContentType \<lparr>Body = Some ''review-yes'', ContentType = ''application/json''\<rparr>
       = ''application/json''
   \<and> Decode example_lib ''review-yes'' = (None, review_yes)
   \<and> Request review_yes = Some \<lparr>UID = ''uid-1'', Raw = ''pod-yes''\<rparr>
   \<and> (\<exists>resp bytes wh'.
         webhookMutation example_lib example_server
            \<lparr>Body = Some ''review-yes'', ContentType = ''application/json''\<rparr> =
           Inr (Reply \<lparr>Request = None, Response = Some resp\<rparr> bytes, wh')
         \<and> RespUID resp = ''uid-1'')"
proof -
  have d: "Decode example_lib ''review-yes'' = (None, review_yes)"
    by (rule example_lib_Decode)
  have q: "Request review_yes = Some \<lparr>UID = ''uid-1'', Raw = ''pod-yes''\<rparr>"
    by (simp add: review_yes_def)
  show ?thesis
    using response_uid_mirrors_request [where lib = example_lib and wh = example_server
        and r = "\<lparr>Body = Some ''review-yes'', ContentType = ''application/json''\<rparr>"
        and body = "''review-yes''", OF _ _ _ d q] d q
    by simp
qed

subsection \<open>C6: a failed reload\<close>

text \<open>
  C6. When the debounce timer fires and loading the configuration fails or loading
  the certificate pair fails, the reload returns the server as it was: the turn of
  the loop leaves both the sidecar configuration and the certificate pair as they
  were before, for every later read.
\<close>

theorem failed_reload_keeps_state:
  assumes "(\<exists>e. loadConfig io fs (SidecarConfigFile p) = Inl e)
           \<or> (\<exists>e. LoadX509KeyPair io fs (CertFile p) (KeyFile p) = Inl e)"
  shows "reload io p fs wh = wh
         \<and> Server (Run_select io p st (TimerFired fs)) = Server st
         \<and> SidecarConfig (Server (Run_select io p st (TimerFired fs))) = SidecarConfig (Server st)
         \<and> TLSConfig (Server (Run_select io p st (TimerFired fs))) = TLSConfig (Server st)"
proof -
  have r: "reload io p fs w = w" for w :: "('a, 'b, 'c, 'd) WebHookServer"
    using assms by (auto simp: reload_def split: sum.splits)
  then show ?thesis
    by (simp add: Run_select_def)
qed

text \<open>
  A configuration file that is not YAML, and a key that does not match.
\<close>

theorem failed_reload_keeps_state_witness:
  "loadConfig example_io fs_bad_config (SidecarConfigFile example_params) =
     Inl ''yaml: did not find expected key''
   \<and> Server (Run_select example_io example_params
        \<lparr>Server = example_server, TimerArmed = True, Returned = False\<rparr>
        (TimerFired fs_bad_config)) = example_server
   \<and> LoadX509KeyPair example_io fs_bad_key (CertFile example_params) (KeyFile example_params) =
     Inl ''tls: private key does not match public key''
   \<and> Server (Run_select example_io example_params
        \<lparr>Server = example_server, TimerArmed = True, Returned = False\<rparr>
        (TimerFired fs_bad_key)) = example_server"
  using failed_reload_keeps_state [of example_io fs_bad_config example_params example_server
          "\<lparr>Server = example_server, TimerArmed = True, Returned = False\<rparr>"]
        failed_reload_keeps_state [of example_io fs_bad_key example_params example_server
          "\<lparr>Server = example_server, TimerArmed = True, Returned = False\<rparr>"]
  by (simp add: loadConfig_bad_config LoadX509KeyPair_bad_key)

subsection \<open>C7: what changes the active configuration\<close>

text \<open>
  C7, as the code has it. The server state changes in two ways only. Handling a
  review whose pod requires mutation overwrites every container, volume and
  pull-secret entry of the sidecar configuration with its defaulted form, in
  place (same entries, same order), and leaves the certificate pair alone;
  handling any other review, or a request that never reaches \<open>mutation\<close>, leaves
  the server as it was. A turn of the loop of \<open>Run\<close> leaves the server as it was
  unless the timer fired and both loads succeeded; it then replaces the
  configuration and the certificate pair by the loaded ones.
\<close>

theorem spec_changes_by_reload_or_defaults:
  "(mutation lib wh ar = Inr (resp, wh') \<longrightarrow>
      wh' =
        (if (\<exists>req pod. Request ar = Some req \<and> Unmarshal lib (Raw req) = Inr pod
               \<and> requiredMutation lib (Meta pod))
         then wh\<lparr>SidecarConfig := defaulted lib (SidecarConfig wh)\<rparr>
         else wh))
   \<and> (webhookMutation lib wh r = Inr (out, wh'') \<longrightarrow>
        wh'' = wh \<or> wh'' = wh\<lparr>SidecarConfig := defaulted lib (SidecarConfig wh)\<rparr>)
   \<and> (Server (Run_select io p st ev) = Server st
      \<or> (\<exists>fs sidecarConfig pair. ev = TimerFired fs
           \<and> loadConfig io fs (SidecarConfigFile p) = Inr sidecarConfig
           \<and> LoadX509KeyPair io fs (CertFile p) (KeyFile p) = Inr pair
           \<and> Server (Run_select io p st ev) =
               (Server st)\<lparr>SidecarConfig := sidecarConfig, TLSConfig := pair\<rparr>))"
proof (intro conjI impI)
  assume "mutation lib wh ar = Inr (resp, wh')"
  then show "wh' =
        (if (\<exists>req pod. Request ar = Some req \<and> Unmarshal lib (Raw req) = Inr pod
               \<and> requiredMutation lib (Meta pod))
         then wh\<lparr>SidecarConfig := defaulted lib (SidecarConfig wh)\<rparr>
         else wh)"
    by (rule mutation_state)
next
  assume "webhookMutation lib wh r = Inr (out, wh'')"
  then have "wh'' = wh \<or> (\<exists>resp ar. mutation lib wh ar = Inr (resp, wh''))"
    by (rule webhookMutation_state)
  then show "wh'' = wh \<or> wh'' = wh\<lparr>SidecarConfig := defaulted lib (SidecarConfig wh)\<rparr>"
  proof
    assume "wh'' = wh"
    then show ?thesis by simp
  next
    assume "\<exists>resp ar. mutation lib wh ar = Inr (resp, wh'')"
    then obtain resp ar where "mutation lib wh ar = Inr (resp, wh'')" by blast
    from mutation_state [OF this] show ?thesis by (simp split: if_splits)
  qed
next
  show "Server (Run_select io p st ev) = Server st
      \<or> (\<exists>fs sidecarConfig pair. ev = TimerFired fs
           \<and> loadConfig io fs (SidecarConfigFile p) = Inr sidecarConfig
           \<and> LoadX509KeyPair io fs (CertFile p) (KeyFile p) = Inr pair
           \<and> Server (Run_select io p st ev) =
               (Server st)\<lparr>SidecarConfig := sidecarConfig, TLSConfig := pair\<rparr>)"
    by (rule Run_select_state)
qed

text \<open>
  The review of the pod annotated \<open>inject = Yes\<close> fills the empty termination message
  path of the configured container; a reload of loadable files replaces both fields.
\<close>

theorem spec_changes_by_reload_or_defaults_witness:
  "mutation example_lib example_server review_yes =
     Inr (\<lparr>RespUID = [], Allowed = True, Result = None,
           Patch = Some ''add /spec/containers/-;add /spec/volumes;add /metadata/annotations;'',
           PatchType = Some ''JSONPatch''\<rparr>,
          \<lparr>SidecarConfig = \<lparr>Containers = [(''mesher'', ''/dev/termination-log'')],
                             Volumes = [''certs''], ImagePullSecret = []\<rparr>,
           TLSConfig = ''pair-1''\<rparr>)
   \<and> webhookMutation example_lib example_server
          \<lparr>Body = Some ''review-yes'', ContentType = ''application/json''\<rparr> =
     Inr (Reply \<lparr>Request = None,
                 Response = Some \<lparr>RespUID = ''uid-1'', Allowed = True, Result = None,
                   Patch = Some ''add /spec/containers/-;add /spec/volumes;add /metadata/annotations;'',
                   PatchType = Some ''JSONPatch''\<rparr>\<rparr> ''review'',
          \<lparr>SidecarConfig = \<lparr>Containers = [(''mesher'', ''/dev/termination-log'')],
                             Volumes = [''certs''], ImagePullSecret = []\<rparr>,
           TLSConfig = ''pair-1''\<rparr>)
   \<and> \<lparr>SidecarConfig = \<lparr>Containers = [(''mesher'', ''/dev/termination-log'')],
                         Volumes = [''certs''], ImagePullSecret = []\<rparr>,
       TLSConfig = ''pair-1''\<rparr> =
      example_server\<lparr>SidecarConfig := defaulted example_lib (SidecarConfig example_server)\<rparr>
   \<and> Server (Run_select example_io example_params
        \<lparr>Server = example_server, TimerArmed = True, Returned = False\<rparr> (TimerFired fs_good)) \<noteq>
      Server \<lparr>Server = example_server, TimerArmed = True, Returned = False\<rparr>
   \<and> Server (Run_select example_io example_params
        \<lparr>Server = example_server, TimerArmed = True, Returned = False\<rparr> (TimerFired fs_good)) =
      example_server\<lparr>SidecarConfig :=
                       \<lparr>Containers = [(''proxy'', [])], Volumes = [], ImagePullSecret = []\<rparr>,
                     TLSConfig := ''pair-2''\<rparr>"
proof -
  note T = spec_changes_by_reload_or_defaults [of example_lib example_server review_yes
      "\<lparr>RespUID = [], Allowed = True, Result = None,
           Patch = Some ''add /spec/containers/-;add /spec/volumes;add /metadata/annotations;'',
           PatchType = Some ''JSONPatch''\<rparr>"
      "\<lparr>SidecarConfig = \<lparr>Containers = [(''mesher'', ''/dev/termination-log'')],
                             Volumes = [''certs''], ImagePullSecret = []\<rparr>,
           TLSConfig = ''pair-1''\<rparr>"
      "\<lparr>Body = Some ''review-yes'', ContentType = ''application/json''\<rparr>"
      "Reply \<lparr>Request = None,
                 Response = Some \<lparr>RespUID = ''uid-1'', Allowed = True, Result = None,
                   Patch = Some ''add /spec/containers/-;add /spec/volumes;add /metadata/annotations;'',
                   PatchType = Some ''JSONPatch''\<rparr>\<rparr> ''review''"
      "\<lparr>SidecarConfig = \<lparr>Containers = [(''mesher'', ''/dev/termination-log'')],
                             Volumes = [''certs''], ImagePullSecret = []\<rparr>,
           TLSConfig = ''pair-1''\<rparr>"
      example_io example_params
      "\<lparr>Server = example_server, TimerArmed = True, Returned = False\<rparr>" "TimerFired fs_good"]
  have cond: "\<exists>req pod. Request review_yes = Some req \<and> Unmarshal example_lib (Raw req) = Inr pod
               \<and> requiredMutation example_lib (Meta pod)"
    by (simp add: review_yes_def example_lib_Unmarshal required_pod_yes)
  from T mutation_review_yes cond
  have d: "\<lparr>SidecarConfig = \<lparr>Containers = [(''mesher'', ''/dev/termination-log'')],
                         Volumes = [''certs''], ImagePullSecret = []\<rparr>,
       TLSConfig = ''pair-1''\<rparr> =
      example_server\<lparr>SidecarConfig := defaulted example_lib (SidecarConfig example_server)\<rparr>"
    by simp
  have ne: "Server (Run_select example_io example_params
        \<lparr>Server = example_server, TimerArmed = True, Returned = False\<rparr> (TimerFired fs_good)) \<noteq>
      Server \<lparr>Server = example_server, TimerArmed = True, Returned = False\<rparr>"
    by (simp add: Run_select_def reload_good, simp add: example_server_def)
  with T loadConfig_good LoadX509KeyPair_good
  have r: "Server (Run_select example_io example_params
        \<lparr>Server = example_server, TimerArmed = True, Returned = False\<rparr> (TimerFired fs_good)) =
      example_server\<lparr>SidecarConfig :=
                       \<lparr>Containers = [(''proxy'', [])], Volumes = [], ImagePullSecret = []\<rparr>,
                     TLSConfig := ''pair-2''\<rparr>"
    by auto
  from mutation_review_yes webhookMutation_review_yes d ne r show ?thesis by simp
qed

text \<open>
  C7 as stated fails: handling the review of the pod annotated \<open>inject = Yes\<close>
  changes the container entry of the active configuration, whose termination
  message path was empty.
\<close>

theorem request_defaults_in_place_counterexample:
  "mutation example_lib example_server review_yes =
     Inr (\<lparr>RespUID = [], Allowed = True, Result = None,
           Patch = Some ''add /spec/containers/-;add /spec/volumes;add /metadata/annotations;'',
           PatchType = Some ''JSONPatch''\<rparr>,
          \<lparr>SidecarConfig = \<lparr>Containers = [(''mesher'', ''/dev/termination-log'')],
                             Volumes = [''certs''], ImagePullSecret = []\<rparr>,
           TLSConfig = ''pair-1''\<rparr>)
   \<and> Containers (SidecarConfig example_server) = [(''mesher'', [])]
   \<and> Containers (SidecarConfig example_server) \<noteq> [(''mesher'', ''/dev/termination-log'')]"
  using mutation_review_yes by (simp add: example_server_def)

subsection \<open>C8: the lock\<close>

text \<open>
  C8 fails on the code. Handling the review of a pod that requires mutation reads
  the shared configuration four times and writes its entries without
  \<open>wh.Lock\<close> held, while the reload takes the lock around its two assignments.
\<close>

theorem handler_reads_without_lock:
  "mutation_accesses example_lib review_yes =
     [ReadSidecarConfig, ReadSidecarConfig, ReadSidecarConfig, WriteSidecarConfig, ReadSidecarConfig]
   \<and> \<not> guarded False (mutation_accesses example_lib review_yes)
   \<and> reload_accesses example_io example_params fs_good =
        [LockLock, WriteSidecarConfig, WriteTLSConfig, LockUnlock]
   \<and> guarded False (reload_accesses example_io example_params fs_good)"
  by (simp add: mutation_accesses_def review_yes_def example_lib_Unmarshal required_pod_yes
      reload_accesses_def loadConfig_good LoadX509KeyPair_good)

subsection \<open>C9: the results of the engine\<close>



subsection \<open>C10: the two annotation keys\<close>

text \<open>
  C10. The two keys are \<open>sidecar-injector-mesher.io/inject\<close> and
  \<open>sidecar-injector-mesher.io/status\<close>. The decision is the condition on the values
  read at exactly these two keys. When mutation is required, what \<open>mutation\<close>
  serialises into its patch ends with exactly one annotation operation, which
  tests the value at the status key and writes the single pair from the status
  key to \<open>injected\<close>: as the one-key map added at \<open>/metadata/annotations\<close>, or as the
  value replaced at the path of the status key. Two pods with the same spec whose
  annotations read the same at the two keys, whatever other annotations either of
  them has (added, removed or changed), get the same decision, the same patch from
  \<open>createpatch\<close> for every sidecar configuration, and the same result from
  \<open>mutation\<close>.
\<close>

theorem only_two_annotation_keys:
  "webhookInjectKey = ''sidecar-injector-mesher.io/inject''
   \<and> webhookStatusKey = ''sidecar-injector-mesher.io/status''
   \<and> (requiredMutation lib metaData \<longleftrightarrow>
        (ToLower lib (annotationOf metaData ''sidecar-injector-mesher.io/inject'') = ''y''
           \<or> ToLower lib (annotationOf metaData ''sidecar-injector-mesher.io/inject'') = ''yes'')
        \<and> ToLower lib (annotationOf metaData ''sidecar-injector-mesher.io/status'') \<noteq> ''injected'')
   \<and> (Request ar = Some req \<and> Unmarshal lib (Raw req) = Inr pod \<and> requiredMutation lib (Meta pod)
      \<longrightarrow> mutation lib wh ar =
           (case Marshal lib
                   (insertContainer (SpecContainers (Spec pod))
                        (Containers (defaulted lib (SidecarConfig wh))) ''/spec/containers''
                    @ insertVolume (SpecVolumes (Spec pod))
                        (Volumes (defaulted lib (SidecarConfig wh))) ''/spec/volumes''
                    @ insertImagePullSecrets (SpecImagePullSecrets (Spec pod))
                        (ImagePullSecret (defaulted lib (SidecarConfig wh)))
                        ''/spec/imagePullSecrets''
                    @ [if annotationOf (Meta pod) ''sidecar-injector-mesher.io/status'' = []
                       then \<lparr>Operation = ''add'', Path = ''/metadata/annotations'',
                              Value = VMap [(''sidecar-injector-mesher.io/status'', ''injected'')]\<rparr>
                       else \<lparr>Operation = ''replace'',
                              Path = ''/metadata/annotations/sidecar-injector-mesher.io/status'',
                              Value = VString ''injected''\<rparr>]) of
              Inl err \<Rightarrow>
                Inr (\<lparr>RespUID = [], Allowed = False, Result = Some \<lparr>Message = err\<rparr>,
                      Patch = None, PatchType = None\<rparr>,
                     wh\<lparr>SidecarConfig := defaulted lib (SidecarConfig wh)\<rparr>)
            | Inr patch \<Rightarrow>
                Inr (\<lparr>RespUID = [], Allowed = True, Result = None,
                      Patch = Some patch, PatchType = Some ''JSONPatch''\<rparr>,
                     wh\<lparr>SidecarConfig := defaulted lib (SidecarConfig wh)\<rparr>)))
   \<and> (Spec pod' = Spec pod
        \<and> annotationOf (Meta pod') webhookInjectKey = annotationOf (Meta pod) webhookInjectKey
        \<and> annotationOf (Meta pod') webhookStatusKey = annotationOf (Meta pod) webhookStatusKey
      \<longrightarrow> requiredMutation lib (Meta pod') = requiredMutation lib (Meta pod)
          \<and> createpatch lib pod' cfg [(webhookStatusKey, ''injected'')] =
              createpatch lib pod cfg [(webhookStatusKey, ''injected'')]
          \<and> (Request ar = Some req \<and> Request ar' = Some req'
                \<and> Unmarshal lib (Raw req) = Inr pod \<and> Unmarshal lib (Raw req') = Inr pod'
              \<longrightarrow> mutation lib wh ar' = mutation lib wh ar))"
proof (intro conjI impI)
  show "webhookInjectKey = ''sidecar-injector-mesher.io/inject''"
    by (simp add: webhookInjectKey_def)
  show "webhookStatusKey = ''sidecar-injector-mesher.io/status''"
    by (simp add: webhookStatusKey_def)
  show "requiredMutation lib metaData \<longleftrightarrow>
        (ToLower lib (annotationOf metaData ''sidecar-injector-mesher.io/inject'') = ''y''
           \<or> ToLower lib (annotationOf metaData ''sidecar-injector-mesher.io/inject'') = ''yes'')
        \<and> ToLower lib (annotationOf metaData ''sidecar-injector-mesher.io/status'') \<noteq> ''injected''"
    by (rule requiredMutation_literal)
next
  assume "Request ar = Some req \<and> Unmarshal lib (Raw req) = Inr pod
            \<and> requiredMutation lib (Meta pod)"
  then have h: "Request ar = Some req" "Unmarshal lib (Raw req) = Inr pod"
    "requiredMutation lib (Meta pod)"
    by simp_all
  show "mutation lib wh ar =
           (case Marshal lib
                   (insertContainer (SpecContainers (Spec pod))
                        (Containers (defaulted lib (SidecarConfig wh))) ''/spec/containers''
                    @ insertVolume (SpecVolumes (Spec pod))
                        (Volumes (defaulted lib (SidecarConfig wh))) ''/spec/volumes''
                    @ insertImagePullSecrets (SpecImagePullSecrets (Spec pod))
                        (ImagePullSecret (defaulted lib (SidecarConfig wh)))
                        ''/spec/imagePullSecrets''
                    @ [if annotationOf (Meta pod) ''sidecar-injector-mesher.io/status'' = []
                       then \<lparr>Operation = ''add'', Path = ''/metadata/annotations'',
                              Value = VMap [(''sidecar-injector-mesher.io/status'', ''injected'')]\<rparr>
                       else \<lparr>Operation = ''replace'',
                              Path = ''/metadata/annotations/sidecar-injector-mesher.io/status'',
                              Value = VString ''injected''\<rparr>]) of
              Inl err \<Rightarrow>
                Inr (\<lparr>RespUID = [], Allowed = False, Result = Some \<lparr>Message = err\<rparr>,
                      Patch = None, PatchType = None\<rparr>,
                     wh\<lparr>SidecarConfig := defaulted lib (SidecarConfig wh)\<rparr>)
            | Inr patch \<Rightarrow>
                Inr (\<lparr>RespUID = [], Allowed = True, Result = None,
                      Patch = Some patch, PatchType = Some ''JSONPatch''\<rparr>,
                     wh\<lparr>SidecarConfig := defaulted lib (SidecarConfig wh)\<rparr>))"
    by (rule mutation_required [OF h])
next
  assume a: "Spec pod' = Spec pod
        \<and> annotationOf (Meta pod') webhookInjectKey = annotationOf (Meta pod) webhookInjectKey
        \<and> annotationOf (Meta pod') webhookStatusKey = annotationOf (Meta pod) webhookStatusKey"
  from a have r: "requiredMutation lib (Meta pod') = requiredMutation lib (Meta pod)"
    by (intro requiredMutation_agree) simp_all
  from a have c: "createpatch_ops pod' cfg' [(webhookStatusKey, ''injected'')] =
                  createpatch_ops pod cfg' [(webhookStatusKey, ''injected'')]" for cfg'
    by (intro createpatch_ops_agree) simp_all
  from r show "requiredMutation lib (Meta pod') = requiredMutation lib (Meta pod)" .
  from c show "createpatch lib pod' cfg [(webhookStatusKey, ''injected'')] =
              createpatch lib pod cfg [(webhookStatusKey, ''injected'')]"
    by (simp only: createpatch_def)
  assume b: "Request ar = Some req \<and> Request ar' = Some req'
                \<and> Unmarshal lib (Raw req) = Inr pod \<and> Unmarshal lib (Raw req') = Inr pod'"
  show "mutation lib wh ar' = mutation lib wh ar"
  proof (rule mutation_agree)
    show "Request ar = Some req" "Request ar' = Some req'"
      "Unmarshal lib (Raw req) = Inr pod" "Unmarshal lib (Raw req') = Inr pod'"
      using b by simp_all
    show "requiredMutation lib (Meta pod') = requiredMutation lib (Meta pod)" by (rule r)
    show "createpatch_ops pod' (defaulted lib (SidecarConfig wh)) [(webhookStatusKey, ''injected'')] =
         createpatch_ops pod (defaulted lib (SidecarConfig wh)) [(webhookStatusKey, ''injected'')]"
      by (rule c)
  qed
qed

text \<open>
  The pod annotated \<open>inject = Yes\<close>, with and without a further annotation
  \<open>team = payments\<close>, and the operations serialised for it.
\<close>

theorem only_two_annotation_keys_witness:
  "Spec pod_yes_labelled = Spec pod_yes
   \<and> annotationOf (Meta pod_yes_labelled) webhookInjectKey = annotationOf (Meta pod_yes) webhookInjectKey
   \<and> annotationOf (Meta pod_yes_labelled) webhookStatusKey = annotationOf (Meta pod_yes) webhookStatusKey
   \<and> Request review_yes = Some \<lparr>UID = ''uid-1'', Raw = ''pod-yes''\<rparr>
   \<and> Request review_yes_labelled = Some \<lparr>UID = ''uid-2'', Raw = ''pod-yes-labelled''\<rparr>
   \<and> Unmarshal example_lib ''pod-yes'' = Inr pod_yes
   \<and> Unmarshal example_lib ''pod-yes-labelled'' = Inr pod_yes_labelled
   \<and> requiredMutation example_lib (Meta pod_yes)
   \<and> requiredMutation example_lib (Meta pod_yes_labelled) = requiredMutation example_lib (Meta pod_yes)
   \<and> mutation example_lib example_server review_yes_labelled =
       mutation example_lib example_server review_yes
   \<and> mutation example_lib example_server review_yes =
       (case Marshal example_lib
               [\<lparr>Operation = ''add'', Path = ''/spec/containers/-'',
                  Value = VContainer (''mesher'', ''/dev/termination-log'')\<rparr>,
                \<lparr>Operation = ''add'', Path = ''/spec/volumes'', Value = VVolumes [''certs'']\<rparr>,
                \<lparr>Operation = ''add'', Path = ''/metadata/annotations'',
                  Value = VMap [(''sidecar-injector-mesher.io/status'', ''injected'')]\<rparr>] of
          Inl err \<Rightarrow>
            Inr (\<lparr>RespUID = [], Allowed = False, Result = Some \<lparr>Message = err\<rparr>,
                  Patch = None, PatchType = None\<rparr>,
                 example_server\<lparr>SidecarConfig :=
                                  defaulted example_lib (SidecarConfig example_server)\<rparr>)
        | Inr patch \<Rightarrow>
            Inr (\<lparr>RespUID = [], Allowed = True, Result = None,
                  Patch = Some patch, PatchType = Some ''JSONPatch''\<rparr>,
                 example_server\<lparr>SidecarConfig :=
                                  defaulted example_lib (SidecarConfig example_server)\<rparr>))"
proof -
  have s: "Spec pod_yes_labelled = Spec pod_yes"
    by (simp add: pod_yes_labelled_def pod_yes_def)
  have q: "Request review_yes = Some \<lparr>UID = ''uid-1'', Raw = ''pod-yes''\<rparr>"
    "Request review_yes_labelled = Some \<lparr>UID = ''uid-2'', Raw = ''pod-yes-labelled''\<rparr>"
    by (simp_all add: review_yes_def review_yes_labelled_def)
  have a: "annotationOf (Meta pod_yes_labelled) webhookInjectKey =
             annotationOf (Meta pod_yes) webhookInjectKey"
    "annotationOf (Meta pod_yes_labelled) webhookStatusKey =
       annotationOf (Meta pod_yes) webhookStatusKey"
    by (simp_all add: annotationOf_pod_yes annotationOf_pod_yes_labelled)
  have u: "Unmarshal example_lib (Raw \<lparr>UID = ''uid-1'', Raw = ''pod-yes''\<rparr>) = Inr pod_yes"
    "Unmarshal example_lib (Raw \<lparr>UID = ''uid-2'', Raw = ''pod-yes-labelled''\<rparr>) =
       Inr pod_yes_labelled"
    by (simp_all add: example_lib_Unmarshal)
  note T = only_two_annotation_keys [of example_lib "Meta pod_yes" review_yes
        "\<lparr>UID = ''uid-1'', Raw = ''pod-yes''\<rparr>" pod_yes example_server pod_yes_labelled
        two_sidecars review_yes_labelled
        "\<lparr>UID = ''uid-2'', Raw = ''pod-yes-labelled''\<rparr>"]
  from T s a q u
  have n: "requiredMutation example_lib (Meta pod_yes_labelled) = requiredMutation example_lib (Meta pod_yes)
   \<and> mutation example_lib example_server review_yes_labelled =
       mutation example_lib example_server review_yes"
    by blast
  have ops: "insertContainer (SpecContainers (Spec pod_yes))
                 (Containers (defaulted example_lib (SidecarConfig example_server)))
                 ''/spec/containers''
             @ insertVolume (SpecVolumes (Spec pod_yes))
                 (Volumes (defaulted example_lib (SidecarConfig example_server))) ''/spec/volumes''
             @ insertImagePullSecrets (SpecImagePullSecrets (Spec pod_yes))
                 (ImagePullSecret (defaulted example_lib (SidecarConfig example_server)))
                 ''/spec/imagePullSecrets''
             @ [if annotationOf (Meta pod_yes) ''sidecar-injector-mesher.io/status'' = []
                then \<lparr>Operation = ''add'', Path = ''/metadata/annotations'',
                       Value = VMap [(''sidecar-injector-mesher.io/status'', ''injected'')]\<rparr>
                else \<lparr>Operation = ''replace'',
                       Path = ''/metadata/annotations/sidecar-injector-mesher.io/status'',
                       Value = VString ''injected''\<rparr>] =
             ([\<lparr>Operation = ''add'', Path = ''/spec/containers/-'',
                  Value = VContainer (''mesher'', ''/dev/termination-log'')\<rparr>,
                \<lparr>Operation = ''add'', Path = ''/spec/volumes'', Value = VVolumes [''certs'']\<rparr>,
                \<lparr>Operation = ''add'', Path = ''/metadata/annotations'',
                  Value = VMap [(''sidecar-injector-mesher.io/status'', ''injected'')]\<rparr>]
              :: (string \<times> string, string, string) operation list)"
    using annotationOf_pod_yes(1)
    by (simp add: defaulted_example_server insertContainer_def insertVolume_def
        insertImagePullSecrets_def pod_yes_def webhookStatusKey_def)
  from T q(1) u(1) required_pod_yes
  have w: "mutation example_lib example_server review_yes =
       (case Marshal example_lib
               [\<lparr>Operation = ''add'', Path = ''/spec/containers/-'',
                  Value = VContainer (''mesher'', ''/dev/termination-log'')\<rparr>,
                \<lparr>Operation = ''add'', Path = ''/spec/volumes'', Value = VVolumes [''certs'']\<rparr>,
                \<lparr>Operation = ''add'', Path = ''/metadata/annotations'',
                  Value = VMap [(''sidecar-injector-mesher.io/status'', ''injected'')]\<rparr>] of
          Inl err \<Rightarrow>
            Inr (\<lparr>RespUID = [], Allowed = False, Result = Some \<lparr>Message = err\<rparr>,
                  Patch = None, PatchType = None\<rparr>,
                 example_server\<lparr>SidecarConfig :=
                                  defaulted example_lib (SidecarConfig example_server)\<rparr>)
        | Inr patch \<Rightarrow>
            Inr (\<lparr>RespUID = [], Allowed = True, Result = None,
                  Patch = Some patch, PatchType = Some ''JSONPatch''\<rparr>,
                 example_server\<lparr>SidecarConfig :=
                                  defaulted example_lib (SidecarConfig example_server)\<rparr>))"
    by (simp only: ops simp_thms)
  from s a q u n w required_pod_yes show ?thesis by (simp add: example_lib_Unmarshal)
qed

end
